theory Spec2Isabelle
  imports Complex_Main "HOL-Library.AList"
begin

section \<open>Values and objects of the simulation (types/runtime.ts)\<close>

text \<open>
  Values that scripts pass around and that cross the worker boundary. Numbers are
  idealised as reals: rounding of IEEE doubles, NaN and the infinities are not modelled.
\<close>

datatype jsval =
    JUndefined
  | JNull
  | JBool bool
  | JNum real
  | JStr string
  | JArr "jsval list"
  | JObj "(string \<times> jsval) list"

text \<open>
  The interface declares \<open>gravity?: number\<close>, but the application also stores the
  boolean \<open>true\<close> there and one variant of the physics compares it with \<open>false\<close>;
  both kinds of value are kept.
\<close>

datatype gravity_val = GNum real | GBool bool

text \<open>
  \<open>interface SimObject\<close>. Every field carries the prefix \<open>obj_\<close> (the source has
  \<open>id\<close>, \<open>type\<close>, \<open>x\<close>, \<open>y\<close>, ...); an optional field is an \<open>option\<close>, \<open>None\<close> being
  \<open>undefined\<close>; \<open>obj_extra\<close> holds the properties of the index signature.
\<close>

record SimObject =
  obj_id :: string
  obj_type :: string
  obj_x :: real
  obj_y :: real
  obj_width :: "real option"
  obj_height :: "real option"
  obj_radius :: "real option"
  obj_color :: "string option"
  obj_opacity :: "real option"
  obj_mass :: "real option"
  obj_vx :: "real option"
  obj_vy :: "real option"
  obj_gravity :: "gravity_val option"
  obj_text :: "string option"
  obj_extra :: "(string \<times> jsval) list"

text \<open>
  \<open>interface RuntimeContext\<close>, its data fields. A JavaScript \<open>Map\<close> is an association
  list in insertion order: \<open>get\<close> is \<open>map_of\<close>, \<open>set\<close> is \<open>AList.update\<close>, \<open>delete\<close> is
  \<open>AList.delete\<close>, \<open>values()\<close> is the list of second components. \<open>'l\<close> is the type of
  the registered listeners.
\<close>

record 'l RuntimeContext =
  objects :: "(string \<times> SimObject) list"
  time :: real
  deltaTime :: real
  events :: "(string \<times> 'l list) list"
  variables :: "(string \<times> jsval) list"

text \<open>
  \<open>interface CompiledScript\<close>: four optional callables of type \<open>'h\<close>. In the argument of
  \<open>loadScript\<close>, \<open>None\<close> stands for any value whose \<open>typeof\<close> is not \<open>'function'\<close>.
\<close>

record 'h CompiledScript =
  onStart :: "'h option"
  onTick :: "'h option"
  onClick :: "'h option"
  onCollision :: "'h option"

text \<open>
  The fields of \<open>class SimulationRuntime\<close> (\<open>ctx\<close> is the field \<open>context\<close>). \<open>sandbox\<close> tells whether a Sandbox has been
  created (\<open>this.sandbox !== null\<close>); the Sandbox itself is modelled further down.
\<close>

record ('l, 'h) SimulationRuntime =
  ctx :: "'l RuntimeContext"
  script :: "'h CompiledScript"
  sandbox :: bool
  running :: bool
  lastTime :: real
  animationFrameId :: "nat option"

definition newRuntime :: "('l, 'h) SimulationRuntime" where
  "newRuntime =
     \<lparr> ctx = \<lparr> objects = [], time = 0, deltaTime = 0, events = [], variables = [] \<rparr>,
       script = \<lparr> onStart = None, onTick = None, onClick = None, onCollision = None \<rparr>,
       sandbox = False, running = False, lastTime = 0, animationFrameId = None \<rparr>"

subsection \<open>Object table\<close>

definition addObject :: "SimObject \<Rightarrow> ('l, 'h) SimulationRuntime \<Rightarrow> ('l, 'h) SimulationRuntime" where
  "addObject obj rt =
     rt\<lparr> ctx := (ctx rt)\<lparr> objects := AList.update (obj_id obj) obj (objects (ctx rt)) \<rparr> \<rparr>"

definition removeObject :: "string \<Rightarrow> ('l, 'h) SimulationRuntime \<Rightarrow> ('l, 'h) SimulationRuntime" where
  "removeObject objectId rt =
     rt\<lparr> ctx := (ctx rt)\<lparr> objects := AList.delete objectId (objects (ctx rt)) \<rparr> \<rparr>"

text \<open>
  \<open>setProperty(objectId, prop, value)\<close>: \<open>obj = objects.get(objectId); if (obj) obj[prop] = value\<close>.
  The dynamic assignment \<open>obj[prop] = value\<close> of the language is the parameter \<open>assign\<close>;
  the result is written back under the same key, the object being mutated in place.
\<close>

definition setProperty ::
  "(SimObject \<Rightarrow> string \<Rightarrow> jsval \<Rightarrow> SimObject) \<Rightarrow> string \<Rightarrow> string \<Rightarrow> jsval \<Rightarrow>
   ('l, 'h) SimulationRuntime \<Rightarrow> ('l, 'h) SimulationRuntime" where
  "setProperty assign objectId prop v rt =
     (case map_of (objects (ctx rt)) objectId of
        None \<Rightarrow> rt
      | Some obj \<Rightarrow>
          rt\<lparr> ctx := (ctx rt)\<lparr> objects :=
                 AList.update objectId (assign obj prop v) (objects (ctx rt)) \<rparr> \<rparr>)"


subsection \<open>Physics\<close>

definition GRAVITY :: real where
  "GRAVITY = 9.8"

text \<open>
  The test \<open>obj.gravity === undefined || obj.gravity > 0\<close> of \<open>updatePhysics\<close>; a boolean
  compared with \<open>0\<close> counts as 1 or 0.
\<close>

definition gravityEnabled :: "gravity_val option \<Rightarrow> bool" where
  "gravityEnabled g =
     (case g of None \<Rightarrow> True | Some (GNum n) \<Rightarrow> n > 0 | Some (GBool b) \<Rightarrow> b)"

text \<open>The test \<open>obj.gravity !== false\<close> of the other variant of \<open>updatePhysics\<close>.\<close>

definition gravityEnabled_v1 :: "gravity_val option \<Rightarrow> bool" where
  "gravityEnabled_v1 g = (g \<noteq> Some (GBool False))"

text \<open>\<open>v || 0\<close> on an optional number.\<close>

definition orZero :: "real option \<Rightarrow> real" where
  "orZero v = (case v of None \<Rightarrow> 0 | Some r \<Rightarrow> r)"

text \<open>The body of the loop of \<open>updatePhysics\<close>, with the gravity test as a parameter.\<close>

definition physicsBody :: "(gravity_val option \<Rightarrow> bool) \<Rightarrow> real \<Rightarrow> SimObject \<Rightarrow> SimObject" where
  "physicsBody enabled dt obj =
     (let obj1 =
        (if enabled (obj_gravity obj) \<and> obj_mass obj \<noteq> None
         then (let vy' = orZero (obj_vy obj) + GRAVITY * dt
               in obj\<lparr> obj_vy := Some vy', obj_y := obj_y obj + vy' * dt \<rparr>)
         else obj)
      in obj1\<lparr> obj_x := obj_x obj1 + orZero (obj_vx obj1) * dt \<rparr>)"

definition physicsStep :: "real \<Rightarrow> SimObject \<Rightarrow> SimObject" where
  "physicsStep = physicsBody gravityEnabled"

definition physicsStep_v1 :: "real \<Rightarrow> SimObject \<Rightarrow> SimObject" where
  "physicsStep_v1 = physicsBody gravityEnabled_v1"

text \<open>\<open>for (const obj of this.context.objects.values())\<close>: every object, in table order.\<close>

fun forObjects :: "(SimObject \<Rightarrow> SimObject) \<Rightarrow> (string \<times> SimObject) list \<Rightarrow> (string \<times> SimObject) list" where
  "forObjects f [] = []"
| "forObjects f ((k, obj) # rest) = (k, f obj) # forObjects f rest"

definition updatePhysics :: "real \<Rightarrow> ('l, 'h) SimulationRuntime \<Rightarrow> ('l, 'h) SimulationRuntime" where
  "updatePhysics dt rt =
     rt\<lparr> ctx := (ctx rt)\<lparr> objects := forObjects (physicsStep dt) (objects (ctx rt)) \<rparr> \<rparr>"

definition updatePhysics_v1 :: "real \<Rightarrow> ('l, 'h) SimulationRuntime \<Rightarrow> ('l, 'h) SimulationRuntime" where
  "updatePhysics_v1 dt rt =
     rt\<lparr> ctx := (ctx rt)\<lparr> objects := forObjects (physicsStep_v1 dt) (objects (ctx rt)) \<rparr> \<rparr>"

subsection \<open>stop and reset\<close>

definition stop :: "('l, 'h) SimulationRuntime \<Rightarrow> ('l, 'h) SimulationRuntime" where
  "stop rt =
     (let rt1 = rt\<lparr> running := False \<rparr>
      in if animationFrameId rt1 \<noteq> None then rt1\<lparr> animationFrameId := None \<rparr> else rt1)"

definition resetObject :: "SimObject \<Rightarrow> SimObject" where
  "resetObject obj = obj\<lparr> obj_vx := Some 0, obj_vy := Some 0 \<rparr>"

definition reset :: "('l, 'h) SimulationRuntime \<Rightarrow> ('l, 'h) SimulationRuntime" where
  "reset rt =
     (let rt1 = stop rt;
          rt2 = rt1\<lparr> ctx := (ctx rt1)\<lparr> time := 0 \<rparr> \<rparr>;
          rt3 = rt2\<lparr> ctx := (ctx rt2)\<lparr> variables := [] \<rparr> \<rparr>
      in rt3\<lparr> ctx := (ctx rt3)\<lparr> objects := forObjects resetObject (objects (ctx rt3)) \<rparr> \<rparr>)"

subsection \<open>loadScript\<close>

text \<open>Each of the four assignments is guarded by \<open>typeof script.f === 'function'\<close>.\<close>

definition loadScript :: "'h CompiledScript \<Rightarrow> ('l, 'h) SimulationRuntime \<Rightarrow> ('l, 'h) SimulationRuntime" where
  "loadScript new rt =
     (let s1 = (case onStart new of Some f \<Rightarrow> (script rt)\<lparr> onStart := Some f \<rparr> | None \<Rightarrow> script rt);
          s2 = (case onTick new of Some f \<Rightarrow> s1\<lparr> onTick := Some f \<rparr> | None \<Rightarrow> s1);
          s3 = (case onClick new of Some f \<Rightarrow> s2\<lparr> onClick := Some f \<rparr> | None \<Rightarrow> s2);
          s4 = (case onCollision new of Some f \<Rightarrow> s3\<lparr> onCollision := Some f \<rparr> | None \<Rightarrow> s3)
      in rt\<lparr> script := s4 \<rparr>)"

subsection \<open>emit\<close>








section \<open>Code generation (lib/blocklyCodegen.ts)\<close>

text \<open>
  A block has a \<open>type\<close> and whatever else the editor keeps (\<open>'b\<close>). A generator's
  \<open>statementToCode(block, 'STATEMENTS')\<close> belongs to the Blockly library: it throws
  (\<open>Inl\<close>), or returns a string, or something falsy (\<open>Inr None\<close>).
\<close>

record 'b Block =
  block_type :: string
  block_rest :: 'b

type_synonym 'b statementToCode = "'b Block \<Rightarrow> string + string option"

text \<open>
  What may sit where a generator is looked for (a falsy value is \<open>None\<close> of the option
  around it). \<open>ObjectValue own\<close> is a truthy value that is not a function; \<open>own\<close> is its
  \<open>statementToCode\<close> when that is a function. \<open>FunctionValue own made\<close> is a function:
  \<open>own\<close> is its own \<open>statementToCode\<close> when that is a function, and \<open>made\<close> tells what
  calling it as a factory gives, \<open>Some g\<close> when it returns a truthy value whose
  \<open>statementToCode\<close> is the function \<open>g\<close>, \<open>None\<close> when it throws or returns anything else.
\<close>

datatype 'b jsGenCandidate =
    ObjectValue "'b statementToCode option"
  | FunctionValue "'b statementToCode option" "'b statementToCode option"

record 'b Workspace =
  ws_jsGen :: "'b jsGenCandidate option"
  ws_blockly_JavaScript :: "'b jsGenCandidate option"
  ws_blocks :: "'b Block list"

text \<open>\<open>a || b\<close> on optional values.\<close>

definition orElse :: "'a option \<Rightarrow> 'a option \<Rightarrow> 'a option" where
  "orElse a b = (case a of Some v \<Rightarrow> Some v | None \<Rightarrow> b)"

text \<open>
  Lines 18 to 38: the first truthy candidate in the order argument, \<open>workspace.__jsGen\<close>,
  \<open>workspace.__blockly.JavaScript\<close>, \<open>window.Blockly.JavaScript\<close>. A function is called as
  a factory, and what it returns takes its place if that has a \<open>statementToCode\<close>
  function; otherwise the candidate stays. The guard then asks for the \<open>statementToCode\<close>
  of what is left.
\<close>

definition resolveGenerator ::
  "'b jsGenCandidate option \<Rightarrow> 'b jsGenCandidate option \<Rightarrow> 'b Workspace \<Rightarrow> 'b statementToCode option" where
  "resolveGenerator jsGenerator globalBlocklyJS workspace =
     (case orElse jsGenerator (orElse (ws_jsGen workspace)
             (orElse (ws_blockly_JavaScript workspace) globalBlocklyJS)) of
        None \<Rightarrow> None
      | Some (ObjectValue own) \<Rightarrow> own
      | Some (FunctionValue own made) \<Rightarrow> (case made of Some g \<Rightarrow> Some g | None \<Rightarrow> own))"

text \<open>\<open>statements || ''\<close>\<close>

definition orEmpty :: "string option \<Rightarrow> string" where
  "orEmpty c = (case c of None \<Rightarrow> [] | Some code \<Rightarrow> code)"

text \<open>
  The loop over \<open>workspace.getAllBlocks(false)\<close>. \<open>handlers[k] = v\<close> on a plain object is
  \<open>AList.update\<close>. An exception of the generator leaves the function (\<open>Inl\<close>).
\<close>

fun collectHandlers ::
  "'b statementToCode \<Rightarrow> 'b Block list \<Rightarrow> (string \<times> string) list \<Rightarrow> string + (string \<times> string) list" where
  "collectHandlers g [] handlers = Inr handlers"
| "collectHandlers g (block # rest) handlers =
     (if block_type block = ''sim_on_start'' then
        (case g block of
           Inl err \<Rightarrow> Inl err
         | Inr statements \<Rightarrow> collectHandlers g rest (AList.update ''onStart'' (orEmpty statements) handlers))
      else if block_type block = ''sim_on_update'' then
        (case g block of
           Inl err \<Rightarrow> Inl err
         | Inr statements \<Rightarrow> collectHandlers g rest (AList.update ''onTick'' (orEmpty statements) handlers))
      else collectHandlers g rest handlers)"

definition extractEventHandlers ::
  "'b Workspace \<Rightarrow> 'b jsGenCandidate option \<Rightarrow> 'b jsGenCandidate option \<Rightarrow> string + (string \<times> string) list" where
  "extractEventHandlers workspace jsGenerator globalBlocklyJS =
     (case resolveGenerator jsGenerator globalBlocklyJS workspace of
        None \<Rightarrow> Inr []
      | Some g \<Rightarrow> collectHandlers g (ws_blocks workspace) [])"

text \<open>The two block types that the loop acts on.\<close>

definition recognized :: "'b Block \<Rightarrow> bool" where
  "recognized block \<longleftrightarrow> block_type block = ''sim_on_start'' \<or> block_type block = ''sim_on_update''"

section \<open>The bridge (lib/sandbox.ts, lib/sandboxWorker.ts)\<close>

subsection \<open>Messages\<close>

text \<open>Host to worker: \<open>init\<close>, \<open>run\<close> (\<open>args\<close> may be undefined), \<open>apiResponse\<close>.\<close>

datatype host_msg =
    HInit "(string \<times> string) list"
  | HRun string "jsval list option" nat
  | HApiResponse nat jsval

text \<open>
  Worker to host: \<open>ready\<close>, \<open>result\<close>, \<open>error\<close>, \<open>api\<close>, and \<open>WOther\<close> for a message of
  any other type, with the \<open>id\<close> it carries, if any.
\<close>

datatype worker_msg =
    WReady
  | WResult nat jsval
  | WError nat string
  | WApi nat string "jsval list"
  | WOther "nat option"

subsection \<open>Sandbox: state\<close>

text \<open>
  An \<open>Error\<close> is its message. The four messages of sandbox.ts, under the names the
  specification gives the kinds of failure; \<open>WorkerNotReady\<close> has no name there.
\<close>

definition WorkerNotReady :: string where
  "WorkerNotReady = ''worker not ready''"

definition InitTimeout :: string where
  "InitTimeout = ''Sandbox init timeout''"

definition RunTimeout :: string where
  "RunTimeout = ''Sandbox run timeout''"

definition Terminated :: string where
  "Terminated = ''Sandbox terminated''"

text \<open>How a promise is settled.\<close>

datatype outcome = Resolved jsval | Rejected string

text \<open>
  An entry of \<open>pending\<close>: \<open>{resolve, reject, timer}\<close>. \<open>resolve\<close> and \<open>reject\<close> are those of
  one promise, named by \<open>promise\<close>; \<open>timer\<close> is the handle of the watchdog.
\<close>

record entry =
  promise :: nat
  timer :: "nat option"

text \<open>
  The fields of \<open>class Sandbox\<close> (\<open>worker\<close> tells whether \<open>this.worker\<close> is set), and what
  the class acts on: \<open>promises\<close>, the outcome of the promise that \<open>run\<close> returned for a
  request id (\<open>None\<close> while it is unsettled); \<open>timers\<close>, the handles of the timers that
  are set and have neither fired nor been cleared; \<open>posted\<close>, the messages posted to the
  worker, oldest first. A promise and a watchdog handle are named by the request id of
  the \<open>run\<close> call that made them.
\<close>

record Sandbox =
  worker :: bool
  pending :: "(nat \<times> entry) list"
  idCounter :: nat
  runTimeoutMs :: nat
  initTimeoutMs :: nat
  promises :: "nat \<Rightarrow> outcome option"
  timers :: "nat list"
  posted :: "host_msg list"

definition newSandbox :: "nat option \<Rightarrow> nat option \<Rightarrow> Sandbox" where
  "newSandbox optRunTimeoutMs optInitTimeoutMs =
     \<lparr> worker = False, pending = [], idCounter = 1,
       runTimeoutMs = (case optRunTimeoutMs of Some t \<Rightarrow> t | None \<Rightarrow> 2000),
       initTimeoutMs = (case optInitTimeoutMs of Some t \<Rightarrow> t | None \<Rightarrow> 3000),
       promises = (\<lambda>_. None), timers = [], posted = [] \<rparr>"

text \<open>\<open>resolve\<close> and \<open>reject\<close> of a promise: the first call settles it, later calls do nothing.\<close>

definition settle :: "nat \<Rightarrow> outcome \<Rightarrow> Sandbox \<Rightarrow> Sandbox" where
  "settle p out s = (if promises s p = None then s\<lparr> promises := (promises s)(p \<mapsto> out) \<rparr> else s)"

definition clearTimeout :: "nat \<Rightarrow> Sandbox \<Rightarrow> Sandbox" where
  "clearTimeout h s = s\<lparr> timers := removeAll h (timers s) \<rparr>"

definition postMessage :: "host_msg \<Rightarrow> Sandbox \<Rightarrow> Sandbox" where
  "postMessage m s = s\<lparr> posted := posted s @ [m] \<rparr>"

subsection \<open>Sandbox: operations\<close>

text \<open>\<open>init()\<close>: spawns the worker unless there is one.\<close>

definition init :: "Sandbox \<Rightarrow> Sandbox" where
  "init s = (if worker s then s else s\<lparr> worker := True \<rparr>)"

text \<open>
  The loop of \<open>terminate()\<close> over \<open>this.pending.entries()\<close>: reject, clear the timer if
  there is one, delete the entry.
\<close>

fun rejectEntries :: "(nat \<times> entry) list \<Rightarrow> Sandbox \<Rightarrow> Sandbox" where
  "rejectEntries [] s = s"
| "rejectEntries ((i, e) # rest) s =
     (let s1 = settle (promise e) (Rejected Terminated) s;
          s2 = (case timer e of Some h \<Rightarrow> clearTimeout h s1 | None \<Rightarrow> s1)
      in rejectEntries rest (s2\<lparr> pending := AList.delete i (pending s2) \<rparr>))"

definition terminate :: "Sandbox \<Rightarrow> Sandbox" where
  "terminate s =
     (let s1 = (if worker s then s\<lparr> worker := False \<rparr> else s)
      in rejectEntries (pending s1) s1)"

text \<open>
  The callback that \<open>run\<close> hands to \<open>setTimeout\<close> for request \<open>reqId\<close>, in the order of the
  source: \<open>terminate()\<close>, then \<open>reject(new Error('Sandbox run timeout'))\<close>, then
  \<open>pending.delete(reqId)\<close>.
\<close>

definition watchdog :: "nat \<Rightarrow> Sandbox \<Rightarrow> Sandbox" where
  "watchdog reqId s =
     (let s1 = terminate s;
          s2 = settle reqId (Rejected RunTimeout) s1
      in s2\<lparr> pending := AList.delete reqId (pending s2) \<rparr>)"

text \<open>The timer with handle \<open>h\<close> elapses: its callback runs if the timer is still set.\<close>

definition timerFires :: "nat \<Rightarrow> Sandbox \<Rightarrow> Sandbox" where
  "timerFires h s =
     (if h \<in> set (timers s) then watchdog h (s\<lparr> timers := removeAll h (timers s) \<rparr>) else s)"

text \<open>
  What \<open>run\<close> returns: a promise already rejected (the \<open>throw\<close> of the async function),
  or the promise of a request id.
\<close>

datatype run_result = RunRejected string | RunPromise nat

definition run :: "string \<Rightarrow> jsval list option \<Rightarrow> Sandbox \<Rightarrow> run_result \<times> Sandbox" where
  "run name args s =
     (if \<not> worker s then (RunRejected WorkerNotReady, s)
      else
        (let reqId = idCounter s;
             s1 = s\<lparr> idCounter := reqId + 1 \<rparr>;
             s2 = s1\<lparr> timers := timers s1 @ [reqId] \<rparr>;
             s3 = s2\<lparr> pending := AList.update reqId \<lparr> promise = reqId, timer = Some reqId \<rparr> (pending s2) \<rparr>
         in (RunPromise reqId, postMessage (HRun name args reqId) s3)))"

definition msg_id :: "worker_msg \<Rightarrow> nat option" where
  "msg_id m = (case m of WReady \<Rightarrow> None | WResult i _ \<Rightarrow> Some i | WError i _ \<Rightarrow> Some i
                 | WApi i _ _ \<Rightarrow> Some i | WOther i \<Rightarrow> i)"

text \<open>
  \<open>handleMessage(msg)\<close>: an \<open>api\<close> message is left alone; otherwise the entry with the
  message's id, if there is one, has its timer cleared, is resolved on \<open>result\<close> and
  rejected on \<open>error\<close>, and is deleted.
\<close>

definition handleMessage :: "worker_msg \<Rightarrow> Sandbox \<Rightarrow> Sandbox" where
  "handleMessage msg s =
     (case msg of
        WApi _ _ _ \<Rightarrow> s
      | _ \<Rightarrow>
        (case msg_id msg of
           None \<Rightarrow> s
         | Some i \<Rightarrow>
           (case map_of (pending s) i of
              None \<Rightarrow> s
            | Some e \<Rightarrow>
              (let s1 = (case timer e of Some h \<Rightarrow> clearTimeout h s | None \<Rightarrow> s);
                   s2 = (case msg of
                           WResult _ r \<Rightarrow> settle (promise e) (Resolved r) s1
                         | WError _ err \<Rightarrow> settle (promise e) (Rejected err) s1
                         | _ \<Rightarrow> s1)
               in s2\<lparr> pending := AList.delete i (pending s2) \<rparr>))))"

subsection \<open>Capability dispatch on the host\<close>

text \<open>
  The six runtime methods as \<open>mainApiHandler\<close> calls them, each given the whole \<open>args\<close>
  array (evaluating its argument expressions is part of the call) and acting on the
  runtime state \<open>'r\<close>: \<open>Inl err\<close> when it throws, else \<open>Inr\<close> of what it returns.
\<close>

record 'r capabilities =
  cap_setProperty :: "jsval list \<Rightarrow> 'r \<Rightarrow> (string + jsval) \<times> 'r"
  cap_getProperty :: "jsval list \<Rightarrow> 'r \<Rightarrow> (string + jsval) \<times> 'r"
  cap_emit :: "jsval list \<Rightarrow> 'r \<Rightarrow> (string + jsval) \<times> 'r"
  cap_log :: "jsval list \<Rightarrow> 'r \<Rightarrow> (string + jsval) \<times> 'r"
  cap_loadImage :: "jsval list \<Rightarrow> 'r \<Rightarrow> (string + jsval) \<times> 'r"
  cap_createSprite :: "jsval list \<Rightarrow> 'r \<Rightarrow> (string + jsval) \<times> 'r"

text \<open>The object \<open>{ error: String(err) }\<close>.\<close>

definition errorValue :: "string \<Rightarrow> jsval" where
  "errorValue err = JObj [(''error'', JStr err)]"

text \<open>\<open>f(...); return true\<close>\<close>

definition thenTrue :: "(string + jsval) \<times> 'r \<Rightarrow> (string + jsval) \<times> 'r" where
  "thenTrue res = (case res of (Inl err, r) \<Rightarrow> (Inl err, r) | (Inr _, r) \<Rightarrow> (Inr (JBool True), r))"

text \<open>The \<open>try\<close> block of \<open>mainApiHandler\<close>.\<close>

definition mainApiBody :: "'r capabilities \<Rightarrow> string \<Rightarrow> jsval list \<Rightarrow> 'r \<Rightarrow> (string + jsval) \<times> 'r" where
  "mainApiBody caps name args r =
     (if name = ''setProperty'' then thenTrue (cap_setProperty caps args r)
      else if name = ''getProperty'' then cap_getProperty caps args r
      else if name = ''emit'' then thenTrue (cap_emit caps args r)
      else if name = ''log'' then thenTrue (cap_log caps args r)
      else if name = ''loadImage'' then thenTrue (cap_loadImage caps args r)
      else if name = ''createSprite'' then thenTrue (cap_createSprite caps args r)
      else (Inr JNull, r))"

text \<open>
  \<open>mainApiHandler\<close>: the \<open>try\<close> block, and \<open>catch (err) { return { error: String(err) } }\<close>.
  The result is how the promise of the async function settles: \<open>Inr\<close> resolved.
\<close>

definition mainApiHandler :: "'r capabilities \<Rightarrow> string \<Rightarrow> jsval list \<Rightarrow> 'r \<Rightarrow> (string + jsval) \<times> 'r" where
  "mainApiHandler caps name args r =
     (case mainApiBody caps name args r of
        (Inl err, r') \<Rightarrow> (Inr (errorValue err), r')
      | (Inr v, r') \<Rightarrow> (Inr v, r'))"

text \<open>
  The \<open>onmessage\<close> that \<open>loadHandlers\<close> installs, for any handler \<open>api\<close> it is given: an
  \<open>api\<close> message is answered with \<open>apiResponse\<close>, carrying the result from \<open>then\<close> or
  \<open>{ error: String(err) }\<close> from \<open>catch\<close>, if \<open>this.worker\<close> is set; any other message
  goes to \<open>handleMessage\<close>.
\<close>

definition onmessage ::
  "(string \<Rightarrow> jsval list \<Rightarrow> 'r \<Rightarrow> (string + jsval) \<times> 'r) \<Rightarrow> worker_msg \<Rightarrow> 'r \<times> Sandbox \<Rightarrow> 'r \<times> Sandbox" where
  "onmessage api m st =
     (case st of (r, s) \<Rightarrow>
       (case m of
          WApi i name args \<Rightarrow>
            (case api name args r of
               (Inr res, r') \<Rightarrow>
                 (r', if worker s then postMessage (HApiResponse i res) s else s)
             | (Inl err, r') \<Rightarrow>
                 (r', if worker s then postMessage (HApiResponse i (errorValue err)) s else s))
        | _ \<Rightarrow> (r, handleMessage m s)))"

text \<open>
  \<open>loadHandlers\<close> up to \<open>postMessage({ type: 'init', handlers })\<close>; the wait for \<open>ready\<close>
  that follows is not modelled.
\<close>

definition loadHandlers :: "(string \<times> string) list \<Rightarrow> Sandbox \<Rightarrow> Sandbox" where
  "loadHandlers handlers s = postMessage (HInit handlers) (init s)"

subsection \<open>The worker\<close>

text \<open>
  What a compiled handler does when called, as far as the worker can tell: it returns,
  it throws (the string is \<open>String(err)\<close>), it never completes, or it awaits
  \<open>callMain(name, args)\<close> and goes on with the value that call resolves to.
\<close>

datatype prog =
    Return jsval
  | Throw string
  | Never
  | CallMain string "jsval list" "jsval \<Rightarrow> prog"

type_synonym handler_fn = "jsval list \<Rightarrow> prog"

text \<open>
  The worker's globals: \<open>handlers\<close>; \<open>pending\<close> (here \<open>wpending\<close>), from the id of a
  \<open>callMain\<close> to its \<open>resolve\<close>, that is to the request being served and the rest of its
  handler; and \<open>outbox\<close>, the messages posted to the host, oldest first.
\<close>

record WorkerState =
  handlers :: "(string \<times> handler_fn) list"
  wpending :: "(nat \<times> nat \<times> (jsval \<Rightarrow> prog)) list"
  outbox :: "worker_msg list"

definition newWorker :: WorkerState where
  "newWorker = \<lparr> handlers = [], wpending = [], outbox = [] \<rparr>"

definition post :: "worker_msg \<Rightarrow> WorkerState \<Rightarrow> WorkerState" where
  "post m w = w\<lparr> outbox := outbox w @ [m] \<rparr>"

text \<open>
  \<open>handlers\<close> is a plain object, so \<open>handlers[name]\<close> also finds what every plain object
  inherits. These are the inherited properties that are functions; what one of them does
  when applied to \<open>null\<close> is left to the parameter \<open>builtin\<close> of \<open>lookupHandler\<close>.
\<close>

definition inheritedFunctions :: "string list" where
  "inheritedFunctions =
     [''constructor'', ''hasOwnProperty'', ''isPrototypeOf'', ''propertyIsEnumerable'',
      ''toLocaleString'', ''toString'', ''valueOf'', ''__defineGetter__'', ''__defineSetter__'',
      ''__lookupGetter__'', ''__lookupSetter__'']"

text \<open>\<open>handlers[name]\<close> when \<open>typeof handlers[name] === 'function'\<close>, else \<open>None\<close>.\<close>

definition lookupHandler :: "(string \<Rightarrow> handler_fn) \<Rightarrow> (string \<times> handler_fn) list \<Rightarrow> string \<Rightarrow> handler_fn option" where
  "lookupHandler builtin hs name =
     (case map_of hs name of
        Some f \<Rightarrow> Some f
      | None \<Rightarrow> (if name \<in> set inheritedFunctions then Some (builtin name) else None))"

text \<open>
  The loop of the \<open>init\<close> branch. \<open>compile\<close> is \<open>new Function\<close> applied to the wrapped source:
  \<open>Inl err\<close> when it throws; then the handler is \<open>async () => { throw err }\<close>.
\<close>

fun buildHandlers :: "(string \<Rightarrow> string + handler_fn) \<Rightarrow> (string \<times> string) list \<Rightarrow> (string \<times> handler_fn) list" where
  "buildHandlers compile [] = []"
| "buildHandlers compile ((k, src) # rest) =
     (k, (case compile src of Inr f \<Rightarrow> f | Inl err \<Rightarrow> (\<lambda>_. Throw err))) # buildHandlers compile rest"

text \<open>
  A handler serving request \<open>requestId\<close> runs up to its next suspension. \<open>apiId\<close> is the
  id that \<open>callMain\<close> draws when it is called.
\<close>

definition exec :: "nat \<Rightarrow> nat \<Rightarrow> prog \<Rightarrow> WorkerState \<Rightarrow> WorkerState" where
  "exec apiId requestId p w =
     (case p of
        Return res \<Rightarrow> post (WResult requestId res) w
      | Throw err \<Rightarrow> post (WError requestId err) w
      | Never \<Rightarrow> w
      | CallMain name args k \<Rightarrow>
          post (WApi apiId name args) (w\<lparr> wpending := AList.update apiId (requestId, k) (wpending w) \<rparr>))"

text \<open>The worker's message listener.\<close>

definition workerOnmessage ::
  "(string \<Rightarrow> string + handler_fn) \<Rightarrow> (string \<Rightarrow> handler_fn) \<Rightarrow> nat \<Rightarrow> host_msg \<Rightarrow> WorkerState \<Rightarrow> WorkerState" where
  "workerOnmessage compile builtin apiId m w =
     (case m of
        HInit hs \<Rightarrow> post WReady (w\<lparr> handlers := buildHandlers compile hs \<rparr>)
      | HRun name args requestId \<Rightarrow>
          (case lookupHandler builtin (handlers w) name of
             Some f \<Rightarrow> exec apiId requestId (f (case args of Some a \<Rightarrow> a | None \<Rightarrow> [])) w
           | None \<Rightarrow> w)
      | HApiResponse i res \<Rightarrow>
          (case map_of (wpending w) i of
             Some (requestId, k) \<Rightarrow> exec apiId requestId (k res) (w\<lparr> wpending := AList.delete i (wpending w) \<rparr>)
           | None \<Rightarrow> w))"

subsection \<open>Reachable states and test data of the bridge\<close>

text \<open>
  What holds of every state the operations reach from \<open>newSandbox\<close>: an entry stored
  under id \<open>i\<close> belongs to the promise and the watchdog of request \<open>i\<close>, that promise is
  unsettled and \<open>i\<close> has been handed out; every timer that is set belongs to a pending
  request; no promise of an id still to be handed out is settled.
\<close>

definition sandbox_inv :: "Sandbox \<Rightarrow> bool" where
  "sandbox_inv s \<longleftrightarrow>
     list_all (\<lambda>(i, e). promise e = i \<and> timer e = Some i \<and> promises s i = None \<and> i < idCounter s) (pending s)
     \<and> list_all (\<lambda>h. h \<in> fst ` set (pending s)) (timers s)
     \<and> (\<forall>i. idCounter s \<le> i \<longrightarrow> promises s i = None)"


text \<open>
  What can happen to a Sandbox short of spawning a worker: a \<open>run\<close> call, a message
  handed to \<open>handleMessage\<close>, a timer that elapses, a \<open>terminate\<close> call.
\<close>

datatype bridge_event =
    RunCall string "jsval list option"
  | MessageArrives worker_msg
  | TimerElapses nat
  | TerminateCall

fun afterEvent :: "bridge_event \<Rightarrow> Sandbox \<Rightarrow> Sandbox" where
  "afterEvent (RunCall name args) s = snd (run name args s)"
| "afterEvent (MessageArrives m) s = handleMessage m s"
| "afterEvent (TimerElapses h) s = timerFires h s"
| "afterEvent TerminateCall s = terminate s"

fun afterEvents :: "bridge_event list \<Rightarrow> Sandbox \<Rightarrow> Sandbox" where
  "afterEvents [] s = s"
| "afterEvents (e # es) s = afterEvents es (afterEvent e s)"

text \<open>The \<open>result\<close> or \<open>error\<close> message that settles request \<open>i\<close> in the given way.\<close>

fun response :: "nat \<Rightarrow> outcome \<Rightarrow> worker_msg" where
  "response i (Resolved res) = WResult i res"
| "response i (Rejected err) = WError i err"


text \<open>
  A bridge after \<open>init()\<close>, \<open>run('onStart')\<close> and \<open>run('onTick', [0.016])\<close>, as
  \<open>SimulationRuntime.start\<close> and the first \<open>tick\<close> leave it.
\<close>

definition twoRuns :: Sandbox where
  "twoRuns = snd (run ''onTick'' (Some [JNum 0.016]) (snd (run ''onStart'' None (init (newSandbox None None)))))"


section \<open>Test data\<close>

text \<open>
  The object of the end-to-end scenario: \<open>circle1\<close> with mass 1, no gravity field,
  \<open>y = 50\<close> and \<open>vy = 0\<close>; the other fields as App.tsx sets them.
\<close>

definition circle1 :: SimObject where
  "circle1 =
     \<lparr> obj_id = ''circle1'', obj_type = ''circle'', obj_x = 100, obj_y = 50,
       obj_width = None, obj_height = None, obj_radius = Some 24, obj_color = Some ''#0077ff'',
       obj_opacity = None, obj_mass = Some 1, obj_vx = None, obj_vy = Some 0,
       obj_gravity = None, obj_text = None, obj_extra = [] \<rparr>"

definition demoRuntime :: "(unit, nat) SimulationRuntime" where
  "demoRuntime = addObject circle1 newRuntime"

text \<open>An object that moves: \<open>vx = 3\<close>, \<open>vy = 2\<close>, mass 2, gravity scale 1.\<close>

definition ball :: SimObject where
  "ball =
     \<lparr> obj_id = ''ball'', obj_type = ''circle'', obj_x = 300, obj_y = 100,
       obj_width = None, obj_height = None, obj_radius = Some 10, obj_color = None,
       obj_opacity = None, obj_mass = Some 2, obj_vx = Some 3, obj_vy = Some 2,
       obj_gravity = Some (GNum 1), obj_text = None, obj_extra = [] \<rparr>"

definition ballRuntime :: "(unit, nat) SimulationRuntime" where
  "ballRuntime = addObject ball demoRuntime"

text \<open>A running simulation after one physics step of 0.1 s, with a script and a variable.\<close>

definition movingRuntime :: "(unit, nat) SimulationRuntime" where
  "movingRuntime =
     (let rt = updatePhysics 0.1 demoRuntime
      in rt\<lparr> running := True, animationFrameId := Some 7,
             ctx := (ctx rt)\<lparr> time := 0.1, deltaTime := 0.1, variables := [(''score'', JNum 3)] \<rparr>,
             script := \<lparr> onStart = Some 1, onTick = Some 2, onClick = None, onCollision = None \<rparr> \<rparr>)"

text \<open>Two compiled scripts, their callables named by numbers; the second has no \<open>onTick\<close>.\<close>

definition firstScript :: "nat CompiledScript" where
  "firstScript = \<lparr> onStart = Some 1, onTick = Some 2, onClick = None, onCollision = None \<rparr>"

definition secondScript :: "nat CompiledScript" where
  "secondScript = \<lparr> onStart = Some 3, onTick = None, onClick = None, onCollision = None \<rparr>"




text \<open>
  A workspace with one block of each handler type and one block in between for which the
  generator would throw; \<open>bareWorkspace\<close> has the same blocks and no generator anywhere;
  \<open>functionWorkspace\<close> has them with a function that carries \<open>statementToCode\<close> itself
  and, called as a factory, gives no generator.
\<close>

definition demoGenerator :: "string statementToCode" where
  "demoGenerator block =
     (if block_type block = ''no_generator'' then Inl ''Error: no generator for block''
      else if block_rest block = [] then Inr None
      else Inr (Some (block_rest block)))"

definition demoBlocks :: "string Block list" where
  "demoBlocks =
     [\<lparr> block_type = ''sim_on_start'', block_rest = ''setProperty(1);'' \<rparr>,
      \<lparr> block_type = ''no_generator'', block_rest = ''?'' \<rparr>,
      \<lparr> block_type = ''sim_on_update'', block_rest = [] \<rparr>]"

definition demoWorkspace :: "string Workspace" where
  "demoWorkspace = \<lparr> ws_jsGen = Some (ObjectValue (Some demoGenerator)), ws_blockly_JavaScript = None,
                     ws_blocks = demoBlocks \<rparr>"

definition bareWorkspace :: "string Workspace" where
  "bareWorkspace = \<lparr> ws_jsGen = None, ws_blockly_JavaScript = None, ws_blocks = demoBlocks \<rparr>"

definition functionWorkspace :: "string Workspace" where
  "functionWorkspace = \<lparr> ws_jsGen = Some (FunctionValue (Some demoGenerator) None),
                         ws_blockly_JavaScript = None, ws_blocks = demoBlocks \<rparr>"

text \<open>
  Test data for the worker. \<open>emitSource\<close> is a handler body that awaits
  \<open>callMain('emit', ['hit', 5])\<close> and returns what it resolves to, and \<open>emitThenReturn\<close>
  is the handler it compiles to. \<open>demoCompile\<close> stands for \<open>new Function\<close> on the sources
  used here: it fails on \<open>((\<close>, gives \<open>emitThenReturn\<close> for \<open>emitSource\<close>, and for any other
  source the handler of an empty body. \<open>demoBuiltin\<close> is what an inherited function does
  when applied. In \<open>failingCaps\<close> the call \<open>this.emit(args[0], ...(args[1] || []))\<close>
  throws, as it does for \<open>['hit', 5]\<close>, where the number 5 cannot be spread; the message
  is the engine's.
\<close>

definition emitSource :: string where
  "emitSource = ''return await callMain('emit', ['hit', 5])''"

definition emitThenReturn :: handler_fn where
  "emitThenReturn args = CallMain ''emit'' [JStr ''hit'', JNum 5] (\<lambda>v. Return v)"

definition demoCompile :: "string \<Rightarrow> string + handler_fn" where
  "demoCompile src =
     (if src = ''(('' then Inl ''SyntaxError: Unexpected token''
      else if src = emitSource then Inr emitThenReturn
      else Inr (\<lambda>args. Return JUndefined))"

definition demoBuiltin :: "string \<Rightarrow> handler_fn" where
  "demoBuiltin name args = Throw ''TypeError''"

definition failingCaps :: "unit capabilities" where
  "failingCaps =
     \<lparr> cap_setProperty = (\<lambda>args r. (Inr JUndefined, r)),
       cap_getProperty = (\<lambda>args r. (Inr JUndefined, r)),
       cap_emit = (\<lambda>args r. (Inl ''TypeError: Spread syntax requires ...iterable[Symbol.iterator] to be a function'', r)),
       cap_log = (\<lambda>args r. (Inr JUndefined, r)),
       cap_loadImage = (\<lambda>args r. (Inr JUndefined, r)),
       cap_createSprite = (\<lambda>args r. (Inr JUndefined, r)) \<rparr>"

text \<open>
  A Sandbox after \<open>loadHandlers(hs)\<close> and \<open>run('onStart')\<close>, and a worker after the \<open>init\<close>
  message for \<open>hs\<close>; \<open>askingWorker\<close> has then received the \<open>run\<close> message of request 1, its
  \<open>callMain\<close> drawing the id 77.
\<close>

definition loadedSandbox :: "(string \<times> string) list \<Rightarrow> Sandbox" where
  "loadedSandbox hs = snd (run ''onStart'' None (loadHandlers hs (newSandbox None None)))"

definition loadedWorker :: "(string \<times> string) list \<Rightarrow> WorkerState" where
  "loadedWorker hs = workerOnmessage demoCompile demoBuiltin 0 (HInit hs) newWorker"

definition demoHandlers :: "(string \<times> string) list" where
  "demoHandlers = [(''onStart'', emitSource)]"

definition brokenHandlers :: "(string \<times> string) list" where
  "brokenHandlers = [(''onStart'', ''(('')]"

definition askingWorker :: WorkerState where
  "askingWorker = workerOnmessage demoCompile demoBuiltin 77 (HRun ''onStart'' None 1) (loadedWorker demoHandlers)"

section \<open>Capability API: setProperty on an unknown id\<close>

text \<open>
  C8. For an id that is not a key of the object table, \<open>setProperty\<close> returns normally
  and changes nothing: the whole runtime state, so the table's size and contents too,
  is what it was, whatever the property, the value and the assignment do.
\<close>

theorem setProperty_absent_noop:
  assumes "objectId \<notin> fst ` set (objects (ctx rt))"
  shows "setProperty assign objectId prop v rt = rt
       \<and> length (objects (ctx (setProperty assign objectId prop v rt))) = length (objects (ctx rt))
       \<and> objects (ctx (setProperty assign objectId prop v rt)) = objects (ctx rt)"
proof -
  from assms have "map_of (objects (ctx rt)) objectId = None"
    by (simp add: map_of_eq_None_iff)
  then have "setProperty assign objectId prop v rt = rt"
    by (simp add: setProperty_def)
  then show ?thesis by simp
qed

text \<open>C8 on the demo table: \<open>ghost\<close> is no object, and the table keeps its one entry.\<close>

lemma demoRuntime_objects: "objects (ctx demoRuntime) = [(''circle1'', circle1)]"
  by (simp add: demoRuntime_def addObject_def newRuntime_def circle1_def)

theorem setProperty_absent_noop_witness:
  "''ghost'' \<notin> fst ` set (objects (ctx demoRuntime))
   \<and> setProperty (\<lambda>obj prop v. obj\<lparr> obj_extra := AList.update prop v (obj_extra obj) \<rparr>)
        ''ghost'' ''x'' (JNum 5) demoRuntime = demoRuntime
   \<and> length (objects (ctx (setProperty (\<lambda>obj prop v. obj\<lparr> obj_extra := AList.update prop v (obj_extra obj) \<rparr>)
        ''ghost'' ''x'' (JNum 5) demoRuntime))) = 1"
proof -
  have h: "''ghost'' \<notin> fst ` set (objects (ctx demoRuntime))"
    by (simp add: demoRuntime_objects)
  from setProperty_absent_noop [OF h] h show ?thesis
    by (simp add: demoRuntime_objects)
qed

section \<open>Physics\<close>

lemma forObjects_keys: "map fst (forObjects f al) = map fst al"
  by (induction f al rule: forObjects.induct) simp_all

lemma forObjects_length: "length (forObjects f al) = length al"
  by (induction f al rule: forObjects.induct) simp_all

lemma forObjects_map_of: "map_of (forObjects f al) k = map_option f (map_of al k)"
  by (induction f al rule: forObjects.induct) simp_all

lemma physicsBody_x:
  "obj_x (physicsBody en dt obj) = obj_x obj + (case obj_vx obj of None \<Rightarrow> 0 | Some u \<Rightarrow> u) * dt"
  by (simp add: physicsBody_def Let_def orZero_def)

lemma physicsBody_gravity:
  assumes "en (obj_gravity obj)" and "obj_mass obj \<noteq> None"
  shows "obj_vy (physicsBody en dt obj) = Some ((case obj_vy obj of None \<Rightarrow> 0 | Some v \<Rightarrow> v) + 9.8 * dt)"
    and "obj_y (physicsBody en dt obj)
           = obj_y obj + ((case obj_vy obj of None \<Rightarrow> 0 | Some v \<Rightarrow> v) + 9.8 * dt) * dt"
  using assms by (simp_all add: physicsBody_def Let_def GRAVITY_def orZero_def)

lemma physicsBody_massless:
  assumes "obj_mass obj = None"
  shows "obj_vy (physicsBody en dt obj) = obj_vy obj" and "obj_y (physicsBody en dt obj) = obj_y obj"
  using assms by (simp_all add: physicsBody_def Let_def)

lemma enabled_both:
  assumes "g = None \<or> (\<exists>n. g = Some (GNum n) \<and> n > 0)"
  shows "gravityEnabled g" and "gravityEnabled_v1 g"
  using assms by (auto simp add: gravityEnabled_def gravityEnabled_v1_def)

lemma physicsBody_claim:
  assumes en: "\<And>g. g = None \<or> (\<exists>n. g = Some (GNum n) \<and> n > 0) \<Longrightarrow> en g"
  shows "(\<forall>u. obj_vx obj = Some u \<longrightarrow> obj_x (physicsBody en dt obj) = obj_x obj + u * dt)
       \<and> (obj_vx obj = None \<longrightarrow> obj_x (physicsBody en dt obj) = obj_x obj)
       \<and> (obj_mass obj \<noteq> None \<and> (obj_gravity obj = None \<or> (\<exists>n. obj_gravity obj = Some (GNum n) \<and> n > 0)) \<longrightarrow>
            (\<forall>v. obj_vy obj = Some v \<longrightarrow>
               obj_vy (physicsBody en dt obj) = Some (v + 9.8 * dt)
               \<and> obj_y (physicsBody en dt obj) = obj_y obj + (v + 9.8 * dt) * dt)
          \<and> (obj_vy obj = None \<longrightarrow>
               obj_vy (physicsBody en dt obj) = Some (9.8 * dt)
               \<and> obj_y (physicsBody en dt obj) = obj_y obj + (9.8 * dt) * dt))
       \<and> (obj_mass obj = None \<longrightarrow>
            obj_vy (physicsBody en dt obj) = obj_vy obj \<and> obj_y (physicsBody en dt obj) = obj_y obj)"
proof (intro conjI allI impI)
  fix u assume "obj_vx obj = Some u"
  then show "obj_x (physicsBody en dt obj) = obj_x obj + u * dt" by (simp add: physicsBody_x)
next
  assume "obj_vx obj = None"
  then show "obj_x (physicsBody en dt obj) = obj_x obj" by (simp add: physicsBody_x)
next
  fix v
  assume a: "obj_mass obj \<noteq> None \<and> (obj_gravity obj = None \<or> (\<exists>n. obj_gravity obj = Some (GNum n) \<and> n > 0))"
    and v: "obj_vy obj = Some v"
  from a have e: "en (obj_gravity obj)" and m: "obj_mass obj \<noteq> None" by (simp_all add: en)
  show "obj_vy (physicsBody en dt obj) = Some (v + 9.8 * dt)"
    using physicsBody_gravity(1) [where en = en and obj = obj and dt = dt, OF e m] v by simp
  show "obj_y (physicsBody en dt obj) = obj_y obj + (v + 9.8 * dt) * dt"
    using physicsBody_gravity(2) [where en = en and obj = obj and dt = dt, OF e m] v by simp
next
  assume a: "obj_mass obj \<noteq> None \<and> (obj_gravity obj = None \<or> (\<exists>n. obj_gravity obj = Some (GNum n) \<and> n > 0))"
    and v: "obj_vy obj = None"
  from a have e: "en (obj_gravity obj)" and m: "obj_mass obj \<noteq> None" by (simp_all add: en)
  show "obj_vy (physicsBody en dt obj) = Some (9.8 * dt)"
    using physicsBody_gravity(1) [where en = en and obj = obj and dt = dt, OF e m] v by simp
  show "obj_y (physicsBody en dt obj) = obj_y obj + (9.8 * dt) * dt"
    using physicsBody_gravity(2) [where en = en and obj = obj and dt = dt, OF e m] v by simp
next
  assume "obj_mass obj = None"
  then show "obj_vy (physicsBody en dt obj) = obj_vy obj" and "obj_y (physicsBody en dt obj) = obj_y obj"
    by (rule physicsBody_massless)+
qed

text \<open>
  C3. For an object \<open>obj\<close> stored under \<open>k\<close>, one call of \<open>updatePhysics\<close> with \<open>dt\<close> leaves
  under \<open>k\<close> an object with \<open>x' = x + vx * dt\<close>, whatever its gravity (\<open>x' = x\<close> when \<open>vx\<close> is
  undefined); if its mass is defined and its gravity is undefined or a positive number,
  then \<open>vy' = vy + 9.8 * dt\<close> and \<open>y' = y + vy' * dt\<close> (with 0 for an undefined \<open>vy\<close>); an
  object without mass keeps \<open>vy\<close> and \<open>y\<close>. Both variants of \<open>updatePhysics\<close> in the
  repository do so. Numbers are reals.
\<close>

theorem physics_tick:
  assumes "map_of (objects (ctx rt)) k = Some obj"
  shows "(\<exists>new. map_of (objects (ctx (updatePhysics dt rt))) k = Some new
            \<and> (\<forall>u. obj_vx obj = Some u \<longrightarrow> obj_x new = obj_x obj + u * dt)
            \<and> (obj_vx obj = None \<longrightarrow> obj_x new = obj_x obj)
            \<and> (obj_mass obj \<noteq> None \<and> (obj_gravity obj = None \<or> (\<exists>n. obj_gravity obj = Some (GNum n) \<and> n > 0)) \<longrightarrow>
                 (\<forall>v. obj_vy obj = Some v \<longrightarrow>
                    obj_vy new = Some (v + 9.8 * dt) \<and> obj_y new = obj_y obj + (v + 9.8 * dt) * dt)
               \<and> (obj_vy obj = None \<longrightarrow>
                    obj_vy new = Some (9.8 * dt) \<and> obj_y new = obj_y obj + (9.8 * dt) * dt))
            \<and> (obj_mass obj = None \<longrightarrow> obj_vy new = obj_vy obj \<and> obj_y new = obj_y obj))
       \<and> (\<exists>new. map_of (objects (ctx (updatePhysics_v1 dt rt))) k = Some new
            \<and> (\<forall>u. obj_vx obj = Some u \<longrightarrow> obj_x new = obj_x obj + u * dt)
            \<and> (obj_vx obj = None \<longrightarrow> obj_x new = obj_x obj)
            \<and> (obj_mass obj \<noteq> None \<and> (obj_gravity obj = None \<or> (\<exists>n. obj_gravity obj = Some (GNum n) \<and> n > 0)) \<longrightarrow>
                 (\<forall>v. obj_vy obj = Some v \<longrightarrow>
                    obj_vy new = Some (v + 9.8 * dt) \<and> obj_y new = obj_y obj + (v + 9.8 * dt) * dt)
               \<and> (obj_vy obj = None \<longrightarrow>
                    obj_vy new = Some (9.8 * dt) \<and> obj_y new = obj_y obj + (9.8 * dt) * dt))
            \<and> (obj_mass obj = None \<longrightarrow> obj_vy new = obj_vy obj \<and> obj_y new = obj_y obj))"
proof -
  have a: "map_of (objects (ctx (updatePhysics dt rt))) k = Some (physicsBody gravityEnabled dt obj)"
    using assms by (simp add: updatePhysics_def physicsStep_def forObjects_map_of)
  have b: "map_of (objects (ctx (updatePhysics_v1 dt rt))) k = Some (physicsBody gravityEnabled_v1 dt obj)"
    using assms by (simp add: updatePhysics_v1_def physicsStep_v1_def forObjects_map_of)
  note p = physicsBody_claim [of gravityEnabled obj dt, OF enabled_both(1)]
  note q = physicsBody_claim [of gravityEnabled_v1 obj dt, OF enabled_both(2)]
  show ?thesis
  proof (rule conjI)
    show "\<exists>new. map_of (objects (ctx (updatePhysics dt rt))) k = Some new
            \<and> (\<forall>u. obj_vx obj = Some u \<longrightarrow> obj_x new = obj_x obj + u * dt)
            \<and> (obj_vx obj = None \<longrightarrow> obj_x new = obj_x obj)
            \<and> (obj_mass obj \<noteq> None \<and> (obj_gravity obj = None \<or> (\<exists>n. obj_gravity obj = Some (GNum n) \<and> n > 0)) \<longrightarrow>
                 (\<forall>v. obj_vy obj = Some v \<longrightarrow>
                    obj_vy new = Some (v + 9.8 * dt) \<and> obj_y new = obj_y obj + (v + 9.8 * dt) * dt)
               \<and> (obj_vy obj = None \<longrightarrow>
                    obj_vy new = Some (9.8 * dt) \<and> obj_y new = obj_y obj + (9.8 * dt) * dt))
            \<and> (obj_mass obj = None \<longrightarrow> obj_vy new = obj_vy obj \<and> obj_y new = obj_y obj)"
      by (rule exI [of _ "physicsBody gravityEnabled dt obj"]) (rule conjI [OF a p])
    show "\<exists>new. map_of (objects (ctx (updatePhysics_v1 dt rt))) k = Some new
            \<and> (\<forall>u. obj_vx obj = Some u \<longrightarrow> obj_x new = obj_x obj + u * dt)
            \<and> (obj_vx obj = None \<longrightarrow> obj_x new = obj_x obj)
            \<and> (obj_mass obj \<noteq> None \<and> (obj_gravity obj = None \<or> (\<exists>n. obj_gravity obj = Some (GNum n) \<and> n > 0)) \<longrightarrow>
                 (\<forall>v. obj_vy obj = Some v \<longrightarrow>
                    obj_vy new = Some (v + 9.8 * dt) \<and> obj_y new = obj_y obj + (v + 9.8 * dt) * dt)
               \<and> (obj_vy obj = None \<longrightarrow>
                    obj_vy new = Some (9.8 * dt) \<and> obj_y new = obj_y obj + (9.8 * dt) * dt))
            \<and> (obj_mass obj = None \<longrightarrow> obj_vy new = obj_vy obj \<and> obj_y new = obj_y obj)"
      by (rule exI [of _ "physicsBody gravityEnabled_v1 dt obj"]) (rule conjI [OF b q])
  qed
qed

text \<open>
  C3 on two objects. The end-to-end scenario: \<open>circle1\<close> (mass 1, gravity undefined,
  \<open>y = 50\<close>, \<open>vy = 0\<close>) after a tick with \<open>dt = 0.1\<close> has \<open>vy = 0.98\<close> and \<open>y = 50.098\<close>. And
  \<open>ball\<close> (\<open>vx = 3\<close>, \<open>vy = 2\<close>, \<open>x = 300\<close>, \<open>y = 100\<close>) after a tick with \<open>dt = 0.5\<close> has
  \<open>vy = 2 + 4.9\<close>, \<open>y = 100 + 6.9 * 0.5\<close> and \<open>x = 300 + 3 * 0.5\<close>.
\<close>

lemma ballRuntime_objects: "objects (ctx ballRuntime) = [(''circle1'', circle1), (''ball'', ball)]"
  by (simp add: ballRuntime_def addObject_def demoRuntime_objects circle1_def ball_def)

theorem physics_tick_witness:
  "map_of (objects (ctx ballRuntime)) ''circle1'' = Some circle1
   \<and> obj_mass circle1 = Some 1 \<and> obj_gravity circle1 = None \<and> obj_y circle1 = 50 \<and> obj_vy circle1 = Some 0
   \<and> (\<exists>new. map_of (objects (ctx (updatePhysics 0.1 ballRuntime))) ''circle1'' = Some new
         \<and> obj_vy new = Some 0.98 \<and> obj_y new = 50.098 \<and> obj_x new = 100)
   \<and> (\<exists>new. map_of (objects (ctx (updatePhysics_v1 0.1 ballRuntime))) ''circle1'' = Some new
         \<and> obj_vy new = Some 0.98 \<and> obj_y new = 50.098 \<and> obj_x new = 100)
   \<and> map_of (objects (ctx ballRuntime)) ''ball'' = Some ball
   \<and> obj_vx ball = Some 3 \<and> obj_vy ball = Some 2 \<and> obj_x ball = 300 \<and> obj_y ball = 100
   \<and> (\<exists>new. map_of (objects (ctx (updatePhysics 0.5 ballRuntime))) ''ball'' = Some new
         \<and> obj_vy new = Some 6.9 \<and> obj_y new = 103.45 \<and> obj_x new = 301.5)
   \<and> (\<exists>new. map_of (objects (ctx (updatePhysics_v1 0.5 ballRuntime))) ''ball'' = Some new
         \<and> obj_vy new = Some 6.9 \<and> obj_y new = 103.45 \<and> obj_x new = 301.5)"
proof -
  have h: "map_of (objects (ctx ballRuntime)) ''circle1'' = Some circle1"
    by (simp add: ballRuntime_objects)
  have g: "map_of (objects (ctx ballRuntime)) ''ball'' = Some ball"
    by (simp add: ballRuntime_objects)
  have c: "obj_mass circle1 = Some 1" "obj_gravity circle1 = None" "obj_vy circle1 = Some 0"
    "obj_y circle1 = 50" "obj_x circle1 = 100" "obj_vx circle1 = None"
    by (simp_all add: circle1_def)
  have d: "obj_mass ball = Some 2" "obj_gravity ball = Some (GNum 1)" "obj_vy ball = Some 2"
    "obj_y ball = 100" "obj_x ball = 300" "obj_vx ball = Some 3"
    by (simp_all add: ball_def)
  note T = physics_tick [OF h, of "0.1"]
  note U = physics_tick [OF g, of "0.5"]
  from T [THEN conjunct1] have t1: "\<exists>new. map_of (objects (ctx (updatePhysics 0.1 ballRuntime))) ''circle1'' = Some new
         \<and> obj_vy new = Some 0.98 \<and> obj_y new = 50.098 \<and> obj_x new = 100"
    by (auto simp add: c)
  from T [THEN conjunct2] have t2: "\<exists>new. map_of (objects (ctx (updatePhysics_v1 0.1 ballRuntime))) ''circle1'' = Some new
         \<and> obj_vy new = Some 0.98 \<and> obj_y new = 50.098 \<and> obj_x new = 100"
    by (auto simp add: c)
  from U [THEN conjunct1] have u1: "\<exists>new. map_of (objects (ctx (updatePhysics 0.5 ballRuntime))) ''ball'' = Some new
         \<and> obj_vy new = Some 6.9 \<and> obj_y new = 103.45 \<and> obj_x new = 301.5"
    by (auto simp add: d)
  from U [THEN conjunct2] have u2: "\<exists>new. map_of (objects (ctx (updatePhysics_v1 0.5 ballRuntime))) ''ball'' = Some new
         \<and> obj_vy new = Some 6.9 \<and> obj_y new = 103.45 \<and> obj_x new = 301.5"
    by (auto simp add: d)
  from h c(1,2,4,3) t1 t2 g d(6,3,5,4) u1 u2 show ?thesis by (intro conjI)
qed

section \<open>reset\<close>

lemma stop_fields [simp]:
  "running (stop rt) = False"
  "animationFrameId (stop rt) = None"
  "ctx (stop rt) = ctx rt"
  "script (stop rt) = script rt"
  "sandbox (stop rt) = sandbox rt"
  "lastTime (stop rt) = lastTime rt"
  by (simp_all add: stop_def Let_def)

lemma reset_fields:
  "running (reset rt) = False"
  "animationFrameId (reset rt) = None"
  "script (reset rt) = script rt"
  "sandbox (reset rt) = sandbox rt"
  "lastTime (reset rt) = lastTime rt"
  "time (ctx (reset rt)) = 0"
  "deltaTime (ctx (reset rt)) = deltaTime (ctx rt)"
  "variables (ctx (reset rt)) = []"
  "events (ctx (reset rt)) = events (ctx rt)"
  "objects (ctx (reset rt)) = forObjects resetObject (objects (ctx rt))"
  by (simp_all add: reset_def Let_def)

lemma forObjects_idem: "(\<And>x. f (f x) = f x) \<Longrightarrow> forObjects f (forObjects f al) = forObjects f al"
  by (induction f al rule: forObjects.induct) simp_all

lemma stop_idem: "stop (stop rt) = stop rt"
  by (simp add: stop_def Let_def)

lemma resetObject_idem: "resetObject (resetObject obj) = resetObject obj"
  by (simp add: resetObject_def)

lemma reset_idem: "reset (reset rt) = reset rt"
proof -
  have "forObjects resetObject (forObjects resetObject (objects (ctx rt))) = forObjects resetObject (objects (ctx rt))"
    by (rule forObjects_idem) (rule resetObject_idem)
  then show ?thesis
    by (simp add: reset_def Let_def stop_def)
qed

text \<open>
  C7 as stated fails for the clock's second half: \<open>reset\<close> sets \<open>context.time\<close> to 0 and
  leaves \<open>context.deltaTime\<close>, the last frame's delta, as it was; after one frame of 0.1 s
  it is still 0.1.
\<close>

theorem reset_keeps_deltaTime:
  "deltaTime (ctx movingRuntime) = 0.1
   \<and> deltaTime (ctx (reset movingRuntime)) = 0.1
   \<and> deltaTime (ctx (reset movingRuntime)) \<noteq> 0
   \<and> time (ctx (reset movingRuntime)) = 0"
  by (simp add: reset_fields movingRuntime_def Let_def updatePhysics_def)

text \<open>
  C7, as amended. \<open>reset\<close> stops the simulation, sets the elapsed time \<open>context.time\<close> to
  0, empties the variable store and sets \<open>vx\<close> and \<open>vy\<close> of every object to 0; the table
  keeps its keys in their order and every object its other fields; the script, the
  sandbox and the listeners stay, and so does \<open>context.deltaTime\<close>; a second \<open>reset\<close>
  changes nothing.
\<close>

theorem reset_effect:
  "running (reset rt) = False \<and> animationFrameId (reset rt) = None
   \<and> time (ctx (reset rt)) = 0
   \<and> variables (ctx (reset rt)) = []
   \<and> map fst (objects (ctx (reset rt))) = map fst (objects (ctx rt))
   \<and> (\<forall>k obj. map_of (objects (ctx rt)) k = Some obj \<longrightarrow>
         (\<exists>new. map_of (objects (ctx (reset rt))) k = Some new
            \<and> obj_vx new = Some 0 \<and> obj_vy new = Some 0
            \<and> new\<lparr> obj_vx := obj_vx obj, obj_vy := obj_vy obj \<rparr> = obj))
   \<and> script (reset rt) = script rt \<and> sandbox (reset rt) = sandbox rt
   \<and> events (ctx (reset rt)) = events (ctx rt)
   \<and> deltaTime (ctx (reset rt)) = deltaTime (ctx rt)
   \<and> reset (reset rt) = reset rt"
proof -
  have "\<exists>new. map_of (objects (ctx (reset rt))) k = Some new
            \<and> obj_vx new = Some 0 \<and> obj_vy new = Some 0
            \<and> new\<lparr> obj_vx := obj_vx obj, obj_vy := obj_vy obj \<rparr> = obj"
    if "map_of (objects (ctx rt)) k = Some obj" for k obj
    using that by (simp add: reset_fields forObjects_map_of resetObject_def)
  then show ?thesis
    by (simp add: reset_fields forObjects_keys reset_idem)
qed

text \<open>C7 on the running demo simulation.\<close>

lemma movingRuntime_circle:
  "map_of (objects (ctx movingRuntime)) ''circle1'' = Some (circle1\<lparr> obj_vy := Some 0.98, obj_y := 50.098 \<rparr>)"
  by (simp add: movingRuntime_def Let_def updatePhysics_def demoRuntime_def addObject_def newRuntime_def
      physicsStep_def physicsBody_def gravityEnabled_def circle1_def orZero_def GRAVITY_def)

theorem reset_effect_witness:
  "running movingRuntime \<and> time (ctx movingRuntime) = 0.1
   \<and> \<not> running (reset movingRuntime) \<and> time (ctx (reset movingRuntime)) = 0
   \<and> variables (ctx (reset movingRuntime)) = []
   \<and> (\<exists>new. map_of (objects (ctx (reset movingRuntime))) ''circle1'' = Some new
          \<and> obj_vx new = Some 0 \<and> obj_vy new = Some 0 \<and> obj_y new = 50.098 \<and> obj_mass new = Some 1)
   \<and> onTick (script (reset movingRuntime)) = Some 2
   \<and> reset (reset movingRuntime) = reset movingRuntime"
proof -
  note T = reset_effect [of movingRuntime]
  let ?obj = "circle1\<lparr> obj_vy := Some 0.98, obj_y := 50.098 \<rparr>"
  from T have "\<forall>k obj. map_of (objects (ctx movingRuntime)) k = Some obj \<longrightarrow>
         (\<exists>new. map_of (objects (ctx (reset movingRuntime))) k = Some new
            \<and> obj_vx new = Some 0 \<and> obj_vy new = Some 0
            \<and> new\<lparr> obj_vx := obj_vx obj, obj_vy := obj_vy obj \<rparr> = obj)"
    by (elim conjE)
  with movingRuntime_circle obtain new where
    n: "map_of (objects (ctx (reset movingRuntime))) ''circle1'' = Some new"
      "obj_vx new = Some 0" "obj_vy new = Some 0"
      "new\<lparr> obj_vx := obj_vx ?obj, obj_vy := obj_vy ?obj \<rparr> = ?obj"
    by blast
  from n(4) have "obj_y (new\<lparr> obj_vx := obj_vx ?obj, obj_vy := obj_vy ?obj \<rparr>) = obj_y ?obj"
    and "obj_mass (new\<lparr> obj_vx := obj_vx ?obj, obj_vy := obj_vy ?obj \<rparr>) = obj_mass ?obj"
    by (rule arg_cong)+
  then have y: "obj_y new = 50.098" "obj_mass new = Some 1" by (simp_all add: circle1_def)
  from T have a: "\<not> running (reset movingRuntime)" "time (ctx (reset movingRuntime)) = 0"
    "variables (ctx (reset movingRuntime)) = []"
    "script (reset movingRuntime) = script movingRuntime" "reset (reset movingRuntime) = reset movingRuntime"
    by simp_all
  have b: "running movingRuntime" "time (ctx movingRuntime) = 0.1" "onTick (script movingRuntime) = Some 2"
    by (simp_all add: movingRuntime_def Let_def)
  from n(1,2,3) y have "\<exists>new. map_of (objects (ctx (reset movingRuntime))) ''circle1'' = Some new
          \<and> obj_vx new = Some 0 \<and> obj_vy new = Some 0 \<and> obj_y new = 50.098 \<and> obj_mass new = Some 1"
    by blast
  with a b show ?thesis by simp
qed

section \<open>loadScript\<close>

text \<open>
  C5 as stated fails: after \<open>firstScript\<close>, loading \<open>secondScript\<close>, which has no \<open>onTick\<close>,
  leaves the \<open>onTick\<close> of \<open>firstScript\<close> bound.
\<close>

theorem loadScript_keeps_old_handler:
  "onTick (script (loadScript secondScript (loadScript firstScript (newRuntime :: (unit, nat) SimulationRuntime))))
     = Some 2
   \<and> onTick secondScript = None \<and> onTick firstScript = Some 2"
  by (simp add: loadScript_def firstScript_def secondScript_def newRuntime_def)

lemma buildHandlers_keys: "map fst (buildHandlers compile hs) = map fst hs"
  by (induction compile hs rule: buildHandlers.induct) simp_all

text \<open>
  C5, as amended. \<open>loadScript\<close> binds each of \<open>onStart\<close>, \<open>onTick\<close>, \<open>onClick\<close> and
  \<open>onCollision\<close> to the new script's function when the new script has one, and leaves the
  binding as it was when it has none; nothing else of the runtime changes. In the
  worker, an \<open>init\<close> message replaces the handler map as a whole: its keys are those of
  the new sources, whatever was loaded before.
\<close>

theorem loadScript_merges:
  "onStart (script (loadScript new rt)) = orElse (onStart new) (onStart (script rt))
   \<and> onTick (script (loadScript new rt)) = orElse (onTick new) (onTick (script rt))
   \<and> onClick (script (loadScript new rt)) = orElse (onClick new) (onClick (script rt))
   \<and> onCollision (script (loadScript new rt)) = orElse (onCollision new) (onCollision (script rt))
   \<and> ctx (loadScript new rt) = ctx rt \<and> sandbox (loadScript new rt) = sandbox rt
   \<and> running (loadScript new rt) = running rt
   \<and> handlers (workerOnmessage compile builtin apiId (HInit hs) w) = buildHandlers compile hs
   \<and> map fst (handlers (workerOnmessage compile builtin apiId (HInit hs) w)) = map fst hs"
  by (simp add: loadScript_def orElse_def Let_def workerOnmessage_def post_def buildHandlers_keys
      split: option.splits)

section \<open>emit\<close>






section \<open>Code generation\<close>

lemma collectHandlers_skip:
  "collectHandlers g (filter recognized bs) hs = collectHandlers g bs hs"
  by (induction g bs hs rule: collectHandlers.induct) (auto simp add: recognized_def split: sum.splits)

lemma collectHandlers_none:
  "\<forall>b \<in> set bs. \<not> recognized b \<Longrightarrow> collectHandlers g bs hs = Inr hs"
  by (induction g bs hs rule: collectHandlers.induct) (auto simp add: recognized_def)

lemma collectHandlers_keys:
  assumes "\<forall>b \<in> set bs. recognized b \<longrightarrow> (\<exists>c. g b = Inr c)"
  shows "\<exists>hs'. collectHandlers g bs hs = Inr hs'
           \<and> fst ` set hs' = fst ` set hs
                \<union> (if \<exists>b \<in> set bs. block_type b = ''sim_on_start'' then {''onStart''} else {})
                \<union> (if \<exists>b \<in> set bs. block_type b = ''sim_on_update'' then {''onTick''} else {})
           \<and> (distinct (map fst hs) \<longrightarrow> distinct (map fst hs'))"
  using assms
proof (induction g bs hs rule: collectHandlers.induct)
  case (1 g handlers)
  then show ?case by simp
next
  case (2 g block rest handlers)
  show ?case
  proof (cases "block_type block = ''sim_on_start''")
    case True
    with 2(4) obtain c where c: "g block = Inr c" by (auto simp add: recognized_def)
    from 2(4) have r: "\<forall>b\<in>set rest. recognized b \<longrightarrow> (\<exists>c. g b = Inr c)" by simp
    from 2(1) [OF True c r] True c show ?thesis
      by (auto simp add: AList.dom_update AList.distinct_update)
  next
    case False
    note ns = this
    show ?thesis
    proof (cases "block_type block = ''sim_on_update''")
      case True
      with 2(4) obtain c where c: "g block = Inr c" by (auto simp add: recognized_def)
      from 2(4) have r: "\<forall>b\<in>set rest. recognized b \<longrightarrow> (\<exists>c. g b = Inr c)" by simp
      from 2(2) [OF ns True c r] ns True c show ?thesis
        by (auto simp add: AList.dom_update AList.distinct_update)
    next
      case False
      from 2(4) have r: "\<forall>b\<in>set rest. recognized b \<longrightarrow> (\<exists>c. g b = Inr c)" by simp
      from 2(3) [OF ns False r] ns False show ?thesis by auto
    qed
  qed
qed

lemma resolveGenerator_blocks:
  "resolveGenerator jg gl (ws\<lparr> ws_blocks := bs \<rparr>) = resolveGenerator jg gl ws"
  by (simp add: resolveGenerator_def)

text \<open>
  C9 as stated fails: with one block of each handler type but no generator to be found,
  the result is the empty mapping, not two entries.
\<close>

theorem no_generator_no_handlers:
  "(\<exists>b \<in> set (ws_blocks bareWorkspace). block_type b = ''sim_on_start'')
   \<and> (\<exists>b \<in> set (ws_blocks bareWorkspace). block_type b = ''sim_on_update'')
   \<and> extractEventHandlers bareWorkspace None None = Inr []"
  by (simp add: bareWorkspace_def demoBlocks_def extractEventHandlers_def resolveGenerator_def orElse_def)

text \<open>
  C9, as amended. Without a block of type \<open>sim_on_start\<close> or \<open>sim_on_update\<close> the result
  is the empty mapping; so it is when no generator with \<open>statementToCode\<close> is found,
  whatever the blocks. When a generator is found and does not throw on the handler
  blocks, and at least one block of each of the two types is present, the result has
  exactly two entries, keyed \<open>onStart\<close> and \<open>onTick\<close>. Blocks of any other type are skipped:
  the result is the same as without them, and the generator is not called on them.
\<close>

theorem handlers_from_blocks:
  "((\<forall>b \<in> set (ws_blocks ws). \<not> recognized b) \<longrightarrow> extractEventHandlers ws jg gl = Inr [])
   \<and> (resolveGenerator jg gl ws = None \<longrightarrow> extractEventHandlers ws jg gl = Inr [])
   \<and> (\<forall>g. resolveGenerator jg gl ws = Some g
          \<and> (\<forall>b \<in> set (ws_blocks ws). recognized b \<longrightarrow> (\<exists>c. g b = Inr c))
          \<and> (\<exists>b \<in> set (ws_blocks ws). block_type b = ''sim_on_start'')
          \<and> (\<exists>b \<in> set (ws_blocks ws). block_type b = ''sim_on_update'')
        \<longrightarrow> (\<exists>hs. extractEventHandlers ws jg gl = Inr hs \<and> length hs = 2
                  \<and> fst ` set hs = {''onStart'', ''onTick''}))
   \<and> extractEventHandlers (ws\<lparr> ws_blocks := filter recognized (ws_blocks ws) \<rparr>) jg gl
        = extractEventHandlers ws jg gl"
proof -
  have a: "extractEventHandlers ws jg gl = Inr []" if "\<forall>b \<in> set (ws_blocks ws). \<not> recognized b"
    using that by (simp add: extractEventHandlers_def collectHandlers_none split: option.splits)
  have b: "extractEventHandlers ws jg gl = Inr []" if "resolveGenerator jg gl ws = None"
    using that by (simp add: extractEventHandlers_def)
  have c: "\<exists>hs. extractEventHandlers ws jg gl = Inr hs \<and> length hs = 2
                  \<and> fst ` set hs = {''onStart'', ''onTick''}"
    if g: "resolveGenerator jg gl ws = Some g"
      and t: "\<forall>b \<in> set (ws_blocks ws). recognized b \<longrightarrow> (\<exists>c. g b = Inr c)"
      and s: "\<exists>b \<in> set (ws_blocks ws). block_type b = ''sim_on_start''"
      and u: "\<exists>b \<in> set (ws_blocks ws). block_type b = ''sim_on_update''" for g
  proof -
    from collectHandlers_keys [OF t, of "[]"] s u obtain hs where
      hs: "collectHandlers g (ws_blocks ws) [] = Inr hs"
        "fst ` set hs = {''onStart'', ''onTick''}" "distinct (map fst hs)"
      by auto
    from hs(3) have "length hs = card (fst ` set hs)"
      by (metis distinct_card length_map set_map)
    with hs(2) have "length hs = 2" by simp
    with hs g show ?thesis by (simp add: extractEventHandlers_def)
  qed
  have d: "extractEventHandlers (ws\<lparr> ws_blocks := filter recognized (ws_blocks ws) \<rparr>) jg gl
        = extractEventHandlers ws jg gl"
    by (simp add: extractEventHandlers_def resolveGenerator_blocks collectHandlers_skip split: option.splits)
  from a b c d show ?thesis by blast
qed

text \<open>
  C9 on the demo workspace: the block in between, on which the generator would throw,
  is skipped, and the empty body of the update block gives the empty string. A function
  that carries \<open>statementToCode\<close> and yields nothing as a factory is used as the generator.
\<close>

theorem handlers_from_blocks_witness:
  "resolveGenerator None None demoWorkspace = Some demoGenerator
   \<and> (\<exists>b \<in> set (ws_blocks demoWorkspace). block_type b = ''sim_on_start'')
   \<and> (\<exists>b \<in> set (ws_blocks demoWorkspace). block_type b = ''sim_on_update'')
   \<and> (\<exists>hs. extractEventHandlers demoWorkspace None None = Inr hs \<and> length hs = 2
          \<and> fst ` set hs = {''onStart'', ''onTick''})
   \<and> extractEventHandlers demoWorkspace None None = Inr [(''onStart'', ''setProperty(1);''), (''onTick'', [])]
   \<and> extractEventHandlers functionWorkspace None None
        = Inr [(''onStart'', ''setProperty(1);''), (''onTick'', [])]"
proof -
  have r: "resolveGenerator None None demoWorkspace = Some demoGenerator"
    by (simp add: resolveGenerator_def demoWorkspace_def orElse_def)
  have t: "\<forall>b \<in> set (ws_blocks demoWorkspace). recognized b \<longrightarrow> (\<exists>c. demoGenerator b = Inr c)"
    by (simp add: demoWorkspace_def demoBlocks_def recognized_def demoGenerator_def)
  have s: "\<exists>b \<in> set (ws_blocks demoWorkspace). block_type b = ''sim_on_start''"
    by (simp add: demoWorkspace_def demoBlocks_def)
  have u: "\<exists>b \<in> set (ws_blocks demoWorkspace). block_type b = ''sim_on_update''"
    by (simp add: demoWorkspace_def demoBlocks_def)
  from handlers_from_blocks [of demoWorkspace None None] r t s u
  have two: "\<exists>hs. extractEventHandlers demoWorkspace None None = Inr hs \<and> length hs = 2
          \<and> fst ` set hs = {''onStart'', ''onTick''}"
    by blast
  have e: "extractEventHandlers demoWorkspace None None = Inr [(''onStart'', ''setProperty(1);''), (''onTick'', [])]"
    unfolding extractEventHandlers_def r
    by (simp add: demoWorkspace_def demoBlocks_def demoGenerator_def orEmpty_def)
  have f: "extractEventHandlers functionWorkspace None None
        = Inr [(''onStart'', ''setProperty(1);''), (''onTick'', [])]"
    by (simp add: extractEventHandlers_def resolveGenerator_def orElse_def functionWorkspace_def
        demoBlocks_def demoGenerator_def orEmpty_def)
  from r s u two e f show ?thesis by (intro conjI)
qed

section \<open>Bridge: facts about the operations\<close>

lemma settle_fields [simp]:
  "worker (settle p out s) = worker s"
  "pending (settle p out s) = pending s"
  "idCounter (settle p out s) = idCounter s"
  "timers (settle p out s) = timers s"
  "posted (settle p out s) = posted s"
  "promises (settle p out s) q = (if q = p \<and> promises s p = None then Some out else promises s q)"
  by (simp_all add: settle_def)

lemma clearTimeout_fields [simp]:
  "worker (clearTimeout h s) = worker s"
  "pending (clearTimeout h s) = pending s"
  "idCounter (clearTimeout h s) = idCounter s"
  "timers (clearTimeout h s) = removeAll h (timers s)"
  "posted (clearTimeout h s) = posted s"
  "promises (clearTimeout h s) = promises s"
  by (simp_all add: clearTimeout_def)

lemma postMessage_fields [simp]:
  "worker (postMessage m s) = worker s"
  "pending (postMessage m s) = pending s"
  "idCounter (postMessage m s) = idCounter s"
  "timers (postMessage m s) = timers s"
  "posted (postMessage m s) = posted s @ [m]"
  "promises (postMessage m s) = promises s"
  by (simp_all add: postMessage_def)

lemma rejectEntries_worker [simp]: "worker (rejectEntries es s) = worker s"
  by (induction es s rule: rejectEntries.induct) (simp_all add: Let_def split: option.splits)

lemma rejectEntries_idCounter [simp]: "idCounter (rejectEntries es s) = idCounter s"
  by (induction es s rule: rejectEntries.induct) (simp_all add: Let_def split: option.splits)

lemma rejectEntries_posted [simp]: "posted (rejectEntries es s) = posted s"
  by (induction es s rule: rejectEntries.induct) (simp_all add: Let_def split: option.splits)

lemma rejectEntries_pending:
  "pending (rejectEntries es s) = filter (\<lambda>(k, e). k \<notin> fst ` set es) (pending s)"
proof (induction es s rule: rejectEntries.induct)
  case (1 s)
  then show ?case by simp
next
  case (2 i e rest s)
  then show ?case
    by (auto simp add: Let_def AList.delete_eq split: option.splits intro!: filter_cong)
qed

lemma rejectEntries_timers:
  "timers (rejectEntries es s) = filter (\<lambda>h. Some h \<notin> timer ` snd ` set es) (timers s)"
proof (induction es s rule: rejectEntries.induct)
  case (1 s)
  then show ?case by simp
next
  case (2 i e rest s)
  then show ?case
    by (auto simp add: Let_def removeAll_filter_not_eq split: option.splits intro!: filter_cong)
qed

lemma rejectEntries_promises:
  "promises (rejectEntries es s) p =
     (if promises s p = None \<and> p \<in> promise ` snd ` set es then Some (Rejected Terminated) else promises s p)"
proof (induction es s arbitrary: p rule: rejectEntries.induct)
  case (1 s)
  then show ?case by simp
next
  case (2 i e rest s)
  then show ?case
    by (auto simp add: Let_def split: option.splits)
qed


lemma terminate_worker [simp]: "\<not> worker (terminate s)"
  by (simp add: terminate_def Let_def)

lemma terminate_idCounter [simp]: "idCounter (terminate s) = idCounter s"
  by (simp add: terminate_def Let_def)

lemma terminate_posted [simp]: "posted (terminate s) = posted s"
  by (simp add: terminate_def Let_def)

lemma terminate_pending [simp]: "pending (terminate s) = []"
  by (force simp add: terminate_def Let_def rejectEntries_pending filter_empty_conv)

lemma terminate_promises:
  "promises (terminate s) p =
     (if promises s p = None \<and> p \<in> promise ` snd ` set (pending s) then Some (Rejected Terminated)
      else promises s p)"
  by (simp add: terminate_def Let_def rejectEntries_promises)

lemma terminate_timers:
  "timers (terminate s) = filter (\<lambda>h. Some h \<notin> timer ` snd ` set (pending s)) (timers s)"
  by (simp add: terminate_def Let_def rejectEntries_timers)

lemma inv_entry:
  assumes "sandbox_inv s" and "(i, e) \<in> set (pending s)"
  shows "promise e = i" and "timer e = Some i" and "promises s i = None" and "i < idCounter s"
  using assms by (auto simp add: sandbox_inv_def list_all_iff)

lemma inv_timer:
  assumes "sandbox_inv s" and "h \<in> set (timers s)"
  shows "\<exists>e. (h, e) \<in> set (pending s)"
  using assms by (force simp add: sandbox_inv_def list_all_iff)

lemma inv_key_promise:
  assumes "sandbox_inv s" and "i \<in> fst ` set (pending s)"
  shows "i \<in> promise ` snd ` set (pending s)" and "promises s i = None"
proof -
  from assms(2) obtain e where e: "(i, e) \<in> set (pending s)" by auto
  with assms(1) have "promise e = i" and n: "promises s i = None" by (auto dest: inv_entry)
  with e show "i \<in> promise ` snd ` set (pending s)" by force
  from n show "promises s i = None" .
qed

lemma terminate_timers_inv:
  assumes "sandbox_inv s"
  shows "timers (terminate s) = []"
proof -
  have "Some h \<in> timer ` snd ` set (pending s)" if "h \<in> set (timers s)" for h
  proof -
    from inv_timer [OF assms that] obtain e where e: "(h, e) \<in> set (pending s)" ..
    with assms have "timer e = Some h" by (auto dest: inv_entry)
    with e show ?thesis by force
  qed
  then show ?thesis by (simp add: terminate_timers filter_empty_conv)
qed

lemma sandbox_inv_new: "sandbox_inv (newSandbox a b)"
  by (simp add: sandbox_inv_def newSandbox_def)

lemma sandbox_inv_init: "sandbox_inv s \<Longrightarrow> sandbox_inv (init s)"
  by (simp add: sandbox_inv_def init_def)

lemma sandbox_inv_terminate: "sandbox_inv s \<Longrightarrow> sandbox_inv (terminate s)"
  by (auto simp add: sandbox_inv_def terminate_timers_inv terminate_promises list_all_iff)


lemma sandbox_inv_untimed:
  "sandbox_inv s \<Longrightarrow> sandbox_inv (s\<lparr> timers := removeAll h (timers s) \<rparr>)"
  by (simp add: sandbox_inv_def list_all_iff)

lemma timerFires_unfold:
  assumes "h \<in> set (timers s)"
  shows "timerFires h s =
           (settle h (Rejected RunTimeout) (terminate (s\<lparr> timers := removeAll h (timers s) \<rparr>)))
             \<lparr> pending := [] \<rparr>"
  using assms by (simp add: timerFires_def watchdog_def Let_def)

lemma run_not_ready: "\<not> worker s \<Longrightarrow> run name args s = (RunRejected WorkerNotReady, s)"
  by (simp add: run_def)

lemma run_ready:
  assumes "worker s"
  shows "fst (run name args s) = RunPromise (idCounter s)"
    and "worker (snd (run name args s))"
    and "idCounter (snd (run name args s)) = Suc (idCounter s)"
    and "pending (snd (run name args s)) =
           AList.update (idCounter s) \<lparr> promise = idCounter s, timer = Some (idCounter s) \<rparr> (pending s)"
    and "timers (snd (run name args s)) = timers s @ [idCounter s]"
    and "promises (snd (run name args s)) = promises s"
    and "posted (snd (run name args s)) = posted s @ [HRun name args (idCounter s)]"
  using assms by (simp_all add: run_def Let_def)

lemma update_fresh: "k \<notin> fst ` set al \<Longrightarrow> AList.update k v al = al @ [(k, v)]"
  by (induction al) auto

lemma sandbox_inv_run:
  assumes "sandbox_inv s"
  shows "sandbox_inv (snd (run name args s))"
proof (cases "worker s")
  case False
  with assms show ?thesis by (simp add: run_not_ready)
next
  case True
  have fresh: "idCounter s \<notin> fst ` set (pending s)"
  proof
    assume "idCounter s \<in> fst ` set (pending s)"
    then obtain e where "(idCounter s, e) \<in> set (pending s)" by auto
    with assms have "idCounter s < idCounter s" by (rule inv_entry)
    then show False by simp
  qed
  then have upd: "AList.update (idCounter s) v (pending s) = pending s @ [(idCounter s, v)]" for v
    by (rule update_fresh)
  from assms show ?thesis
    by (auto simp add: sandbox_inv_def run_ready [OF True] upd list_all_iff)
qed


lemma handleMessage_absent:
  assumes "msg_id m = Some i" and "i \<notin> fst ` set (pending s)"
  shows "handleMessage m s = s"
proof -
  from assms(2) have "map_of (pending s) i = None" by (simp add: map_of_eq_None_iff)
  with assms(1) show ?thesis by (cases m) (simp_all add: handleMessage_def msg_id_def)
qed

lemma handleMessage_response:
  assumes "sandbox_inv s" and "i \<in> fst ` set (pending s)"
  shows "promises (handleMessage (response i out) s) = (promises s)(i \<mapsto> out)"
    and "pending (handleMessage (response i out) s) = AList.delete i (pending s)"
    and "timers (handleMessage (response i out) s) = removeAll i (timers s)"
    and "worker (handleMessage (response i out) s) = worker s"
    and "idCounter (handleMessage (response i out) s) = idCounter s"
    and "posted (handleMessage (response i out) s) = posted s"
proof -
  from assms(2) have "map_of (pending s) i \<noteq> None" by (simp add: map_of_eq_None_iff)
  then obtain e where m: "map_of (pending s) i = Some e" by blast
  then have "(i, e) \<in> set (pending s)" by (rule map_of_SomeD)
  with assms(1) have e: "promise e = i" "timer e = Some i" "promises s i = None"
    by (auto dest: inv_entry)
  show "promises (handleMessage (response i out) s) = (promises s)(i \<mapsto> out)"
    using m e by (cases out) (auto simp add: handleMessage_def msg_id_def Let_def fun_eq_iff)
  show "pending (handleMessage (response i out) s) = AList.delete i (pending s)"
    using m e by (cases out) (simp_all add: handleMessage_def msg_id_def Let_def)
  show "timers (handleMessage (response i out) s) = removeAll i (timers s)"
    using m e by (cases out) (simp_all add: handleMessage_def msg_id_def Let_def)
  show "worker (handleMessage (response i out) s) = worker s"
    using m e by (cases out) (simp_all add: handleMessage_def msg_id_def Let_def)
  show "idCounter (handleMessage (response i out) s) = idCounter s"
    using m e by (cases out) (simp_all add: handleMessage_def msg_id_def Let_def)
  show "posted (handleMessage (response i out) s) = posted s"
    using m e by (cases out) (simp_all add: handleMessage_def msg_id_def Let_def)
qed

lemma handleMessage_fields [simp]:
  "worker (handleMessage m s) = worker s"
  "idCounter (handleMessage m s) = idCounter s"
  "posted (handleMessage m s) = posted s"
  by (cases m; simp add: handleMessage_def msg_id_def Let_def split: option.splits)+

lemma handleMessage_pending:
  "pending (handleMessage m s) = pending s \<or>
   (\<exists>i. msg_id m = Some i \<and> pending (handleMessage m s) = AList.delete i (pending s))"
  by (cases m) (simp_all add: handleMessage_def msg_id_def Let_def split: option.splits)

lemma handleMessage_other_promise:
  assumes "sandbox_inv s" and "msg_id m \<noteq> Some p"
  shows "promises (handleMessage m s) p = promises s p"
proof (cases "msg_id m")
  case None
  then show ?thesis by (cases m) (simp_all add: handleMessage_def msg_id_def)
next
  case (Some i)
  with assms(2) have ne: "p \<noteq> i" by simp
  show ?thesis
  proof (cases "map_of (pending s) i")
    case None
    with Some show ?thesis by (cases m) (simp_all add: handleMessage_def msg_id_def)
  next
    case (Some e)
    then have "(i, e) \<in> set (pending s)" by (rule map_of_SomeD)
    with assms(1) have "promise e = i" by (auto dest: inv_entry)
    with Some \<open>msg_id m = Some i\<close> ne show ?thesis
      by (cases m) (simp_all add: handleMessage_def msg_id_def Let_def split: option.splits)
  qed
qed

lemma sandbox_inv_handleMessage:
  assumes "sandbox_inv s"
  shows "sandbox_inv (handleMessage m s)"
proof (cases "\<exists>i e. msg_id m = Some i \<and> map_of (pending s) i = Some e \<and> (\<forall>a b c. m \<noteq> WApi a b c)")
  case False
  then have "handleMessage m s = s"
    by (cases m) (auto simp add: handleMessage_def msg_id_def split: option.splits)
  with assms show ?thesis by simp
next
  case True
  then obtain i e where i: "msg_id m = Some i" and m: "map_of (pending s) i = Some e"
    and napi: "\<forall>a b c. m \<noteq> WApi a b c" by blast
  from m have "(i, e) \<in> set (pending s)" by (rule map_of_SomeD)
  with assms have e: "promise e = i" "timer e = Some i" "promises s i = None"
    by (auto dest: inv_entry)
  have P: "pending (handleMessage m s) = AList.delete i (pending s)"
    using i m e napi by (cases m) (simp_all add: handleMessage_def msg_id_def Let_def)
  have T: "timers (handleMessage m s) = removeAll i (timers s)"
    using i m e napi by (cases m) (simp_all add: handleMessage_def msg_id_def Let_def)
  have Q: "promises (handleMessage m s) p = promises s p" if "p \<noteq> i" for p
    using assms i that by (simp add: handleMessage_other_promise)
  have C: "idCounter (handleMessage m s) = idCounter s" by simp
  have "list_all (\<lambda>(k, e). promise e = k \<and> timer e = Some k \<and> promises (handleMessage m s) k = None
            \<and> k < idCounter (handleMessage m s)) (pending (handleMessage m s))"
    using assms unfolding P C sandbox_inv_def list_all_iff
    by (auto simp add: AList.delete_eq Q)
  moreover have "list_all (\<lambda>h. h \<in> fst ` set (pending (handleMessage m s))) (timers (handleMessage m s))"
    using assms unfolding P T sandbox_inv_def list_all_iff
    by (force simp add: AList.delete_eq)
  moreover have "\<forall>k. idCounter (handleMessage m s) \<le> k \<longrightarrow> promises (handleMessage m s) k = None"
  proof (intro allI impI)
    fix k assume "idCounter (handleMessage m s) \<le> k"
    then have k: "idCounter s \<le> k" by simp
    from assms \<open>(i, e) \<in> set (pending s)\<close> have "i < idCounter s" by (rule inv_entry)
    with k have "k \<noteq> i" by simp
    then have "promises (handleMessage m s) k = promises s k" by (rule Q)
    with assms k show "promises (handleMessage m s) k = None" by (simp add: sandbox_inv_def)
  qed
  ultimately show ?thesis by (simp add: sandbox_inv_def)
qed

lemma sandbox_inv_timerFires:
  assumes "sandbox_inv s"
  shows "sandbox_inv (timerFires h s)"
proof (cases "h \<in> set (timers s)")
  case False
  with assms show ?thesis by (simp add: timerFires_def)
next
  case True
  let ?s0 = "s\<lparr> timers := removeAll h (timers s) \<rparr>"
  from assms have i0: "sandbox_inv ?s0" by (rule sandbox_inv_untimed)
  then have it: "sandbox_inv (terminate ?s0)" by (rule sandbox_inv_terminate)
  from inv_timer [OF assms True] obtain e where "(h, e) \<in> set (pending s)" ..
  with assms have "h < idCounter s" by (rule inv_entry)
  with it show ?thesis
    by (auto simp add: timerFires_unfold [OF True] sandbox_inv_def terminate_timers_inv [OF i0])
qed

lemma sandbox_inv_loadHandlers: "sandbox_inv s \<Longrightarrow> sandbox_inv (loadHandlers hs s)"
  by (simp add: sandbox_inv_def loadHandlers_def init_def)

lemma sandbox_inv_onmessage:
  assumes "sandbox_inv s"
  shows "sandbox_inv (snd (onmessage api m (r, s)))"
proof (cases m)
  case (WApi i name args)
  with assms show ?thesis
    by (simp add: onmessage_def sandbox_inv_def split: prod.splits sum.splits)
qed (simp_all add: onmessage_def sandbox_inv_handleMessage [OF assms])

section \<open>Bridge: the run watchdog\<close>

lemma tornDown_afterEvent:
  assumes "\<not> worker t" and "pending t = []" and "timers t = []"
  shows "afterEvent e t = t"
proof (cases e)
  case (RunCall name args)
  with assms(1) show ?thesis by (simp add: run_not_ready)
next
  case (MessageArrives m)
  with assms(2) show ?thesis by (cases m) (simp_all add: handleMessage_def msg_id_def split: option.splits)
next
  case (TimerElapses h)
  with assms(3) show ?thesis by (simp add: timerFires_def)
next
  case TerminateCall
  with assms(1,2) show ?thesis by (simp add: terminate_def Let_def)
qed

lemma tornDown_afterEvents:
  assumes "\<not> worker t" and "pending t = []" and "timers t = []"
  shows "afterEvents es t = t"
  by (induction es) (simp_all add: tornDown_afterEvent [OF assms])

lemma tornDown_onmessage:
  assumes "\<not> worker t" and "pending t = []"
  shows "snd (onmessage api m (rt, t)) = t"
  using assms
  by (cases m) (simp_all add: onmessage_def handleMessage_def msg_id_def split: prod.splits sum.splits option.splits)

lemma timerFires_idCounter: "idCounter (timerFires h s) = idCounter s"
  by (simp add: timerFires_def watchdog_def Let_def)

text \<open>
  C1, as amended. When the watchdog of request \<open>r\<close> elapses while it is still set, the
  whole bridge is torn down: the worker is disposed of, no entry stays pending and no
  timer stays set, the call that timed out is rejected, and every other pending call is
  rejected with \<open>Sandbox terminated\<close>. From then on, whatever \<open>run\<close> calls, messages,
  timers and \<open>terminate\<close> calls follow, the Sandbox stays as the teardown left it and a
  \<open>run\<close> on it is rejected with \<open>worker not ready\<close>; only \<open>init\<close> or \<open>loadHandlers\<close>, which
  spawn a new worker on the same Sandbox, make \<open>run\<close> take a request again.
\<close>

theorem watchdog_tears_down_bridge:
  assumes "sandbox_inv s" and "r \<in> set (timers s)"
  shows "\<not> worker (timerFires r s)
       \<and> pending (timerFires r s) = []
       \<and> timers (timerFires r s) = []
       \<and> (\<exists>err. promises (timerFires r s) r = Some (Rejected err))
       \<and> (\<forall>i \<in> fst ` set (pending s). i \<noteq> r \<longrightarrow>
             promises (timerFires r s) i = Some (Rejected ''Sandbox terminated''))
       \<and> (\<forall>es name args. run name args (afterEvents es (timerFires r s))
             = (RunRejected ''worker not ready'', timerFires r s))
       \<and> (\<forall>api m rt. snd (onmessage api m (rt, timerFires r s)) = timerFires r s)
       \<and> (\<forall>name args. worker (init (timerFires r s))
             \<and> fst (run name args (init (timerFires r s))) = RunPromise (idCounter s))
       \<and> (\<forall>hs name args. worker (loadHandlers hs (timerFires r s))
             \<and> fst (run name args (loadHandlers hs (timerFires r s))) = RunPromise (idCounter s))"
proof -
  let ?s0 = "s\<lparr> timers := removeAll r (timers s) \<rparr>"
  let ?s' = "timerFires r s"
  have unfold: "?s' = (settle r (Rejected RunTimeout) (terminate ?s0))\<lparr> pending := [] \<rparr>"
    using assms(2) by (rule timerFires_unfold)
  from assms(1) have i0: "sandbox_inv ?s0" by (rule sandbox_inv_untimed)
  have w: "\<not> worker ?s'" by (simp add: unfold)
  have p: "pending ?s' = []" by (simp add: unfold)
  have t: "timers ?s' = []" by (simp add: unfold terminate_timers_inv [OF i0])
  have all: "promises (terminate ?s0) i = Some (Rejected ''Sandbox terminated'')"
    if "i \<in> fst ` set (pending s)" for i
    using inv_key_promise [OF assms(1) that] by (simp add: terminate_promises Terminated_def)
  from inv_timer [OF assms] have rk: "r \<in> fst ` set (pending s)" by force
  have "promises ?s' r = Some (Rejected ''Sandbox terminated'')"
    using all [OF rk] by (simp add: unfold)
  then have own: "\<exists>err. promises ?s' r = Some (Rejected err)" by blast
  have others: "\<forall>i \<in> fst ` set (pending s). i \<noteq> r \<longrightarrow>
      promises ?s' i = Some (Rejected ''Sandbox terminated'')"
    using all by (simp add: unfold)
  have again: "\<forall>es name args. run name args (afterEvents es ?s') = (RunRejected ''worker not ready'', ?s')"
    using w by (simp add: tornDown_afterEvents [OF w p t] run_not_ready WorkerNotReady_def)
  have msgs: "\<forall>api m rt. snd (onmessage api m (rt, ?s')) = ?s'"
    by (simp add: tornDown_onmessage [OF w p])
  have wi: "worker (init ?s')" by (simp add: init_def)
  have wl: "worker (loadHandlers hs ?s')" for hs by (simp add: loadHandlers_def init_def)
  have ci: "idCounter (init ?s') = idCounter s" by (simp add: init_def timerFires_idCounter)
  have cl: "idCounter (loadHandlers hs ?s') = idCounter s" for hs
    by (simp add: loadHandlers_def init_def timerFires_idCounter)
  have ri: "\<forall>name args. worker (init ?s') \<and> fst (run name args (init ?s')) = RunPromise (idCounter s)"
    using run_ready(1) [OF wi] wi by (simp only: ci) simp
  have rl: "\<forall>hs name args. worker (loadHandlers hs ?s')
      \<and> fst (run name args (loadHandlers hs ?s')) = RunPromise (idCounter s)"
  proof (intro allI conjI)
    fix hs :: "(string \<times> string) list" and name args
    show "worker (loadHandlers hs ?s')" by (rule wl)
    show "fst (run name args (loadHandlers hs ?s')) = RunPromise (idCounter s)"
      using run_ready(1) [OF wl [of hs], of name args] by (simp only: cl)
  qed
  from w p t own others again msgs ri rl show ?thesis by (intro conjI)
qed

text \<open>The test bridge, field by field.\<close>

lemma twoRuns_eval:
  "worker twoRuns" "idCounter twoRuns = 3" "timers twoRuns = [1, 2]"
  "pending twoRuns = [(1, \<lparr> promise = 1, timer = Some 1 \<rparr>), (2, \<lparr> promise = 2, timer = Some 2 \<rparr>)]"
  "promises twoRuns = (\<lambda>_. None)"
  "posted twoRuns = [HRun ''onStart'' None 1, HRun ''onTick'' (Some [JNum 0.016]) 2]"
  by (simp_all add: twoRuns_def run_def init_def newSandbox_def Let_def postMessage_def)

text \<open>
  C1 as stated fails on the test bridge. \<open>terminate()\<close> runs before the watchdog's own
  \<open>reject\<close>, while the entry of the timed-out call is still pending, so that call is
  rejected with \<open>Sandbox terminated\<close> and the later \<open>Sandbox run timeout\<close> finds the promise
  settled; and a \<open>run\<close> after the teardown is stopped by the guard on \<open>this.worker\<close>, with
  \<open>worker not ready\<close>.
\<close>

theorem watchdog_rejects_with_terminated:
  "promises (timerFires 1 twoRuns) 1 = Some (Rejected ''Sandbox terminated'')
   \<and> promises (timerFires 1 twoRuns) 1 \<noteq> Some (Rejected RunTimeout)
   \<and> fst (run ''onTick'' None (timerFires 1 twoRuns)) = RunRejected ''worker not ready''
   \<and> fst (run ''onTick'' None (timerFires 1 twoRuns)) \<noteq> RunRejected Terminated"
  by (simp add: timerFires_def watchdog_def terminate_def twoRuns_eval Let_def settle_def
      clearTimeout_def run_def Terminated_def RunTimeout_def WorkerNotReady_def)

lemma twoRuns_inv: "sandbox_inv twoRuns"
  by (simp add: sandbox_inv_def twoRuns_eval)

text \<open>
  The teardown on the test bridge, when the watchdog of request 1 elapses: request 2 is
  rejected too; a \<open>run\<close> is rejected, also after a late message and a \<open>terminate\<close> call;
  after \<open>init\<close> a \<open>run\<close> gets the request id 3.
\<close>

theorem watchdog_tears_down_bridge_witness:
  "sandbox_inv twoRuns \<and> 1 \<in> set (timers twoRuns)
   \<and> \<not> worker (timerFires 1 twoRuns)
   \<and> pending (timerFires 1 twoRuns) = []
   \<and> promises (timerFires 1 twoRuns) 2 = Some (Rejected ''Sandbox terminated'')
   \<and> run ''onTick'' None (timerFires 1 twoRuns) = (RunRejected ''worker not ready'', timerFires 1 twoRuns)
   \<and> run ''onTick'' None
        (afterEvents [MessageArrives (WResult 2 JNull), RunCall ''onStart'' None, TerminateCall]
           (timerFires 1 twoRuns))
       = (RunRejected ''worker not ready'', timerFires 1 twoRuns)
   \<and> fst (run ''onTick'' None (init (timerFires 1 twoRuns))) = RunPromise 3"
proof -
  have h: "1 \<in> set (timers twoRuns)" by (simp add: twoRuns_eval)
  have k: "2 \<in> fst ` set (pending twoRuns)" by (simp add: twoRuns_eval)
  have c: "idCounter twoRuns = 3" by (rule twoRuns_eval)
  note T = watchdog_tears_down_bridge [OF twoRuns_inv h]
  from T have a: "\<not> worker (timerFires 1 twoRuns)" by (rule conjunct1)
  from T have b: "pending (timerFires 1 twoRuns) = []" by (elim conjE)
  from T have "\<forall>i \<in> fst ` set (pending twoRuns). i \<noteq> 1 \<longrightarrow>
      promises (timerFires 1 twoRuns) i = Some (Rejected ''Sandbox terminated'')" by (elim conjE)
  from this k have d: "promises (timerFires 1 twoRuns) 2 = Some (Rejected ''Sandbox terminated'')" by auto
  from T have e: "\<forall>es name args. run name args (afterEvents es (timerFires 1 twoRuns))
      = (RunRejected ''worker not ready'', timerFires 1 twoRuns)"
    by (elim conjE)
  from e [THEN spec, of "[]"]
  have f: "run ''onTick'' None (timerFires 1 twoRuns) = (RunRejected ''worker not ready'', timerFires 1 twoRuns)"
    by simp
  from e have g: "run ''onTick'' None
        (afterEvents [MessageArrives (WResult 2 JNull), RunCall ''onStart'' None, TerminateCall]
           (timerFires 1 twoRuns))
       = (RunRejected ''worker not ready'', timerFires 1 twoRuns)"
    by blast
  from T have "\<forall>name args. worker (init (timerFires 1 twoRuns))
             \<and> fst (run name args (init (timerFires 1 twoRuns))) = RunPromise (idCounter twoRuns)"
    by (elim conjE)
  then have i: "fst (run ''onTick'' None (init (timerFires 1 twoRuns))) = RunPromise 3"
    unfolding c by blast
  from twoRuns_inv h a b d f g i show ?thesis by (intro conjI)
qed

section \<open>Bridge: correlation by request id\<close>

lemma two_responses:
  assumes inv: "sandbox_inv s" and ka: "a \<in> fst ` set (pending s)" and kb: "b \<in> fst ` set (pending s)"
    and ne: "a \<noteq> b"
  shows "promises (handleMessage (response b ob) (handleMessage (response a oa) s))
           = (promises s)(a \<mapsto> oa, b \<mapsto> ob)"
proof -
  let ?t = "handleMessage (response a oa) s"
  have it: "sandbox_inv ?t" using inv by (rule sandbox_inv_handleMessage)
  have "pending ?t = AList.delete a (pending s)" using inv ka by (rule handleMessage_response)
  then have "fst ` set (pending ?t) = fst ` set (pending s) - {a}"
    by (auto simp add: AList.delete_eq)
  with kb ne have kb': "b \<in> fst ` set (pending ?t)" by blast
  have "promises (handleMessage (response b ob) ?t) = (promises ?t)(b \<mapsto> ob)"
    using it kb' by (rule handleMessage_response)
  also have "promises ?t = (promises s)(a \<mapsto> oa)" using inv ka by (rule handleMessage_response)
  finally show ?thesis .
qed

lemma run_allocates:
  assumes "sandbox_inv s" and "worker s"
  shows "fst (run name args s) = RunPromise (idCounter s)"
    and "idCounter s \<notin> fst ` set (pending s)"
    and "fst ` set (pending (snd (run name args s))) = insert (idCounter s) (fst ` set (pending s))"
proof -
  show "fst (run name args s) = RunPromise (idCounter s)" using assms(2) by (rule run_ready)
  show "idCounter s \<notin> fst ` set (pending s)"
  proof
    assume "idCounter s \<in> fst ` set (pending s)"
    then obtain e where "(idCounter s, e) \<in> set (pending s)" by auto
    with assms(1) have "idCounter s < idCounter s" by (rule inv_entry)
    then show False by simp
  qed
  show "fst ` set (pending (snd (run name args s))) = insert (idCounter s) (fst ` set (pending s))"
    by (simp add: run_ready(4) [OF assms(2)] AList.dom_update)
qed

text \<open>
  C2. Every \<open>run\<close> on a live bridge takes a request id that no pending call has, so
  concurrent calls have distinct ids. For any two pending calls \<open>i\<close> and \<open>j\<close>, whatever
  the two responses are (\<open>result\<close> or \<open>error\<close>, with any payload) and in whichever order
  they arrive, the promise of \<open>i\<close> is settled by the response that carries \<open>i\<close> and the
  promise of \<open>j\<close> by the one that carries \<open>j\<close>, and no other promise changes.
\<close>

theorem run_correlation:
  assumes "sandbox_inv s"
  shows "(worker s \<longrightarrow>
            fst (run name args s) = RunPromise (idCounter s)
          \<and> idCounter s \<notin> fst ` set (pending s)
          \<and> fst ` set (pending (snd (run name args s))) = insert (idCounter s) (fst ` set (pending s)))
       \<and> (i \<in> fst ` set (pending s) \<and> j \<in> fst ` set (pending s) \<and> i \<noteq> j \<longrightarrow>
            promises (handleMessage (response j oj) (handleMessage (response i oi) s)) i = Some oi
          \<and> promises (handleMessage (response j oj) (handleMessage (response i oi) s)) j = Some oj
          \<and> promises (handleMessage (response i oi) (handleMessage (response j oj) s)) i = Some oi
          \<and> promises (handleMessage (response i oi) (handleMessage (response j oj) s)) j = Some oj
          \<and> (\<forall>k. k \<noteq> i \<and> k \<noteq> j \<longrightarrow>
                promises (handleMessage (response j oj) (handleMessage (response i oi) s)) k = promises s k
              \<and> promises (handleMessage (response i oi) (handleMessage (response j oj) s)) k = promises s k))"
proof (intro conjI impI)
  assume w: "worker s"
  show "fst (run name args s) = RunPromise (idCounter s)" using assms w by (rule run_allocates)
  show "idCounter s \<notin> fst ` set (pending s)" using assms w by (rule run_allocates)
  show "fst ` set (pending (snd (run name args s))) = insert (idCounter s) (fst ` set (pending s))"
    using assms w by (rule run_allocates)
next
  assume "i \<in> fst ` set (pending s) \<and> j \<in> fst ` set (pending s) \<and> i \<noteq> j"
  then have ki: "i \<in> fst ` set (pending s)" and kj: "j \<in> fst ` set (pending s)" and ne: "i \<noteq> j"
    by simp_all
  note a = two_responses [OF assms ki kj ne, of oj oi]
  note b = two_responses [OF assms kj ki ne [symmetric], of oi oj]
  show "promises (handleMessage (response j oj) (handleMessage (response i oi) s)) i = Some oi"
    using ne by (simp add: a)
  show "promises (handleMessage (response j oj) (handleMessage (response i oi) s)) j = Some oj"
    by (simp add: a)
  show "promises (handleMessage (response i oi) (handleMessage (response j oj) s)) i = Some oi"
    by (simp add: b)
  show "promises (handleMessage (response i oi) (handleMessage (response j oj) s)) j = Some oj"
    using ne by (simp add: b)
  show "\<forall>k. k \<noteq> i \<and> k \<noteq> j \<longrightarrow>
                promises (handleMessage (response j oj) (handleMessage (response i oi) s)) k = promises s k
              \<and> promises (handleMessage (response i oi) (handleMessage (response j oj) s)) k = promises s k"
    by (simp add: a b)
qed

text \<open>
  C2 on the test bridge: the \<open>error\<close> for request 2 and the \<open>result\<close> for request 1,
  delivered in either order, settle their own callers; a third call gets the id 3.
\<close>

theorem run_correlation_witness:
  "sandbox_inv twoRuns
   \<and> fst ` set (pending twoRuns) = {1, 2}
   \<and> promises (handleMessage (WResult 1 (JStr ''started'')) (handleMessage (WError 2 ''Error: tick'') twoRuns)) 1
       = Some (Resolved (JStr ''started''))
   \<and> promises (handleMessage (WResult 1 (JStr ''started'')) (handleMessage (WError 2 ''Error: tick'') twoRuns)) 2
       = Some (Rejected ''Error: tick'')
   \<and> promises (handleMessage (WError 2 ''Error: tick'') (handleMessage (WResult 1 (JStr ''started'')) twoRuns)) 1
       = Some (Resolved (JStr ''started''))
   \<and> promises (handleMessage (WError 2 ''Error: tick'') (handleMessage (WResult 1 (JStr ''started'')) twoRuns)) 2
       = Some (Rejected ''Error: tick'')
   \<and> fst (run ''onTick'' None twoRuns) = RunPromise 3"
proof -
  have k: "fst ` set (pending twoRuns) = {1, 2}" by (auto simp add: twoRuns_eval)
  have h: "1 \<in> fst ` set (pending twoRuns) \<and> 2 \<in> fst ` set (pending twoRuns) \<and> (1::nat) \<noteq> 2"
    by (simp add: k)
  have w: "worker twoRuns" by (rule twoRuns_eval)
  have c: "idCounter twoRuns = 3" by (rule twoRuns_eval)
  note T = run_correlation [OF twoRuns_inv, where i = 1 and j = 2 and oi = "Resolved (JStr ''started'')"
      and oj = "Rejected ''Error: tick''" and name = "''onTick''" and args = None]
  from T [THEN conjunct2, rule_format, OF h, unfolded response.simps]
  have m: "promises (handleMessage (WResult 1 (JStr ''started'')) (handleMessage (WError 2 ''Error: tick'') twoRuns)) 1
       = Some (Resolved (JStr ''started''))
   \<and> promises (handleMessage (WResult 1 (JStr ''started'')) (handleMessage (WError 2 ''Error: tick'') twoRuns)) 2
       = Some (Rejected ''Error: tick'')
   \<and> promises (handleMessage (WError 2 ''Error: tick'') (handleMessage (WResult 1 (JStr ''started'')) twoRuns)) 1
       = Some (Resolved (JStr ''started''))
   \<and> promises (handleMessage (WError 2 ''Error: tick'') (handleMessage (WResult 1 (JStr ''started'')) twoRuns)) 2
       = Some (Rejected ''Error: tick'')"
    by blast
  from T [THEN conjunct1, rule_format, OF w, unfolded c]
  have r: "fst (run ''onTick'' None twoRuns) = RunPromise 3" by (rule conjunct1)
  from twoRuns_inv k m r show ?thesis by blast
qed

section \<open>Bridge: capability calls that fail\<close>

lemma mainApiHandler_resolves: "\<exists>v. fst (mainApiHandler caps name args r) = Inr v"
  by (simp add: mainApiHandler_def split: prod.splits sum.splits)

lemma mainApiHandler_caught:
  "mainApiBody caps name args r = (Inl err, r') \<Longrightarrow>
   mainApiHandler caps name args r = (Inr (errorValue err), r')"
  by (simp add: mainApiHandler_def)

lemma onmessage_api_rejected:
  "worker s \<Longrightarrow> api name args r = (Inl err, r') \<Longrightarrow>
   onmessage api (WApi i name args) (r, s) = (r', postMessage (HApiResponse i (errorValue err)) s)"
  by (simp add: onmessage_def)

lemma onmessage_api_resolved:
  "worker s \<Longrightarrow> api name args r = (Inr v, r') \<Longrightarrow>
   onmessage api (WApi i name args) (r, s) = (r', postMessage (HApiResponse i v) s)"
  by (simp add: onmessage_def)

lemma onmessage_api_frame:
  "worker (snd (onmessage api (WApi i name args) (r, s))) = worker s
   \<and> pending (snd (onmessage api (WApi i name args) (r, s))) = pending s
   \<and> promises (snd (onmessage api (WApi i name args) (r, s))) = promises s
   \<and> timers (snd (onmessage api (WApi i name args) (r, s))) = timers s"
  by (simp add: onmessage_def split: prod.splits sum.splits)

lemma worker_apiResponse:
  "map_of (wpending w) i = Some (requestId, k) \<Longrightarrow>
   workerOnmessage compile builtin apiId (HApiResponse i v) w
     = exec apiId requestId (k v) (w\<lparr> wpending := AList.delete i (wpending w) \<rparr>)"
  by (simp add: workerOnmessage_def)

lemma mainApiHandler_named:
  "cap_setProperty caps args r = (Inl err, r') \<Longrightarrow>
     mainApiHandler caps ''setProperty'' args r = (Inr (JObj [(''error'', JStr err)]), r')"
  "cap_getProperty caps args r = (Inl err, r') \<Longrightarrow>
     mainApiHandler caps ''getProperty'' args r = (Inr (JObj [(''error'', JStr err)]), r')"
  "cap_emit caps args r = (Inl err, r') \<Longrightarrow>
     mainApiHandler caps ''emit'' args r = (Inr (JObj [(''error'', JStr err)]), r')"
  "cap_log caps args r = (Inl err, r') \<Longrightarrow>
     mainApiHandler caps ''log'' args r = (Inr (JObj [(''error'', JStr err)]), r')"
  "cap_loadImage caps args r = (Inl err, r') \<Longrightarrow>
     mainApiHandler caps ''loadImage'' args r = (Inr (JObj [(''error'', JStr err)]), r')"
  "cap_createSprite caps args r = (Inl err, r') \<Longrightarrow>
     mainApiHandler caps ''createSprite'' args r = (Inr (JObj [(''error'', JStr err)]), r')"
  by (simp_all add: mainApiHandler_def mainApiBody_def thenTrue_def errorValue_def)

text \<open>
  C4. \<open>mainApiHandler\<close> never rejects: when the capability it calls throws \<open>err\<close> (each of
  the six is named), it resolves to the object \<open>{ error: String(err) }\<close>. While the
  worker is there, the host answers the \<open>api\<close> message with one \<open>apiResponse\<close> of the same
  id that carries that object, and it does so too for any handler whose promise
  rejects. Answering leaves the worker flag, the pending requests, their promises and
  their timers alone. In the worker the response resolves the awaited \<open>callMain\<close>: the
  handler that made the call goes on with the object as the call's result.
\<close>

theorem capability_error_is_returned:
  "(\<exists>v. fst (mainApiHandler caps name args r) = Inr v)
   \<and> (\<forall>err r'. cap_setProperty caps args r = (Inl err, r') \<longrightarrow>
         mainApiHandler caps ''setProperty'' args r = (Inr (JObj [(''error'', JStr err)]), r'))
   \<and> (\<forall>err r'. cap_getProperty caps args r = (Inl err, r') \<longrightarrow>
         mainApiHandler caps ''getProperty'' args r = (Inr (JObj [(''error'', JStr err)]), r'))
   \<and> (\<forall>err r'. cap_emit caps args r = (Inl err, r') \<longrightarrow>
         mainApiHandler caps ''emit'' args r = (Inr (JObj [(''error'', JStr err)]), r'))
   \<and> (\<forall>err r'. cap_log caps args r = (Inl err, r') \<longrightarrow>
         mainApiHandler caps ''log'' args r = (Inr (JObj [(''error'', JStr err)]), r'))
   \<and> (\<forall>err r'. cap_loadImage caps args r = (Inl err, r') \<longrightarrow>
         mainApiHandler caps ''loadImage'' args r = (Inr (JObj [(''error'', JStr err)]), r'))
   \<and> (\<forall>err r'. cap_createSprite caps args r = (Inl err, r') \<longrightarrow>
         mainApiHandler caps ''createSprite'' args r = (Inr (JObj [(''error'', JStr err)]), r'))
   \<and> (\<forall>err r'. worker s \<and> mainApiHandler caps name args r = (Inr (JObj [(''error'', JStr err)]), r') \<longrightarrow>
         onmessage (mainApiHandler caps) (WApi i name args) (r, s)
           = (r', s\<lparr> posted := posted s @ [HApiResponse i (JObj [(''error'', JStr err)])] \<rparr>))
   \<and> (\<forall>api err r'. worker s \<and> api name args r = (Inl err, r') \<longrightarrow>
         onmessage api (WApi i name args) (r, s)
           = (r', s\<lparr> posted := posted s @ [HApiResponse i (JObj [(''error'', JStr err)])] \<rparr>))
   \<and> (\<forall>api. worker (snd (onmessage api (WApi i name args) (r, s))) = worker s
            \<and> pending (snd (onmessage api (WApi i name args) (r, s))) = pending s
            \<and> promises (snd (onmessage api (WApi i name args) (r, s))) = promises s
            \<and> timers (snd (onmessage api (WApi i name args) (r, s))) = timers s)
   \<and> (\<forall>requestId k err. map_of (wpending w) i = Some (requestId, k) \<longrightarrow>
         workerOnmessage compile builtin apiId (HApiResponse i (JObj [(''error'', JStr err)])) w
           = exec apiId requestId (k (JObj [(''error'', JStr err)]))
               (w\<lparr> wpending := AList.delete i (wpending w) \<rparr>))"
proof -
  have c: "onmessage (mainApiHandler caps) (WApi i name args) (r, s)
           = (r', s\<lparr> posted := posted s @ [HApiResponse i (JObj [(''error'', JStr err)])] \<rparr>)"
    if "worker s" and "mainApiHandler caps name args r = (Inr (JObj [(''error'', JStr err)]), r')" for err r'
    using that by (simp add: onmessage_api_resolved postMessage_def)
  have d: "onmessage api (WApi i name args) (r, s)
           = (r', s\<lparr> posted := posted s @ [HApiResponse i (JObj [(''error'', JStr err)])] \<rparr>)"
    if "worker s" and "api name args r = (Inl err, r')" for api err r'
    using that by (simp add: onmessage_api_rejected postMessage_def errorValue_def)
  show ?thesis
    using mainApiHandler_resolves [of caps name args r] c d
    by (simp add: mainApiHandler_named onmessage_api_frame worker_apiResponse)
qed

text \<open>
  C4 end to end: the handler calls \<open>emit\<close>, which throws on the host; the \<open>apiResponse\<close>
  carries the error value; the handler goes on, returns it, and \<open>run\<close> resolves with it.
\<close>

lemma loadedSandbox_eval:
  "worker (loadedSandbox hs)" "idCounter (loadedSandbox hs) = 2" "timers (loadedSandbox hs) = [1]"
  "pending (loadedSandbox hs) = [(1, \<lparr> promise = 1, timer = Some 1 \<rparr>)]"
  "promises (loadedSandbox hs) = (\<lambda>_. None)"
  "posted (loadedSandbox hs) = [HInit hs, HRun ''onStart'' None 1]"
  by (simp_all add: loadedSandbox_def loadHandlers_def run_def init_def newSandbox_def Let_def postMessage_def)

lemma loadedSandbox_inv: "sandbox_inv (loadedSandbox hs)"
  by (simp add: sandbox_inv_def loadedSandbox_eval)

lemma askingWorker_eval:
  "outbox askingWorker = [WReady, WApi 77 ''emit'' [JStr ''hit'', JNum 5]]"
  "map_of (wpending askingWorker) 77 = Some (1, \<lambda>v. Return v)"
  by (simp_all add: askingWorker_def demoHandlers_def loadedWorker_def workerOnmessage_def newWorker_def
      post_def demoCompile_def emitSource_def lookupHandler_def exec_def emitThenReturn_def)

theorem capability_error_is_returned_witness:
  "demoCompile emitSource = Inr emitThenReturn
   \<and> outbox askingWorker = [WReady, WApi 77 ''emit'' [JStr ''hit'', JNum 5]]
   \<and> posted (snd (onmessage (mainApiHandler failingCaps) (WApi 77 ''emit'' [JStr ''hit'', JNum 5])
                ((), loadedSandbox demoHandlers)))
     = [HInit demoHandlers, HRun ''onStart'' None 1,
        HApiResponse 77 (JObj [(''error'',
          JStr ''TypeError: Spread syntax requires ...iterable[Symbol.iterator] to be a function'')])]
   \<and> outbox (workerOnmessage demoCompile demoBuiltin 78
               (HApiResponse 77 (JObj [(''error'',
                  JStr ''TypeError: Spread syntax requires ...iterable[Symbol.iterator] to be a function'')]))
               askingWorker)
     = [WReady, WApi 77 ''emit'' [JStr ''hit'', JNum 5],
        WResult 1 (JObj [(''error'',
          JStr ''TypeError: Spread syntax requires ...iterable[Symbol.iterator] to be a function'')])]
   \<and> promises (handleMessage (WResult 1 (JObj [(''error'',
                   JStr ''TypeError: Spread syntax requires ...iterable[Symbol.iterator] to be a function'')]))
                 (loadedSandbox demoHandlers)) 1
     = Some (Resolved (JObj [(''error'',
         JStr ''TypeError: Spread syntax requires ...iterable[Symbol.iterator] to be a function'')]))"
proof -
  let ?err = "''TypeError: Spread syntax requires ...iterable[Symbol.iterator] to be a function''"
  let ?obj = "JObj [(''error'', JStr ?err)]"
  have src: "demoCompile emitSource = Inr emitThenReturn"
    by (simp add: demoCompile_def emitSource_def)
  have cap: "cap_emit failingCaps [JStr ''hit'', JNum 5] () = (Inl ?err, ())"
    by (simp add: failingCaps_def)
  note T = capability_error_is_returned [where caps = failingCaps and name = "''emit''"
      and args = "[JStr ''hit'', JNum 5]" and r = "()" and s = "loadedSandbox demoHandlers"
      and i = 77 and w = askingWorker and compile = demoCompile and builtin = demoBuiltin and apiId = 78]
  from T have "\<forall>err r'. cap_emit failingCaps [JStr ''hit'', JNum 5] () = (Inl err, r') \<longrightarrow>
         mainApiHandler failingCaps ''emit'' [JStr ''hit'', JNum 5] () = (Inr (JObj [(''error'', JStr err)]), r')"
    by (elim conjE)
  from this [rule_format, OF cap]
  have h: "mainApiHandler failingCaps ''emit'' [JStr ''hit'', JNum 5] () = (Inr ?obj, ())" .
  from T have "\<forall>err r'. worker (loadedSandbox demoHandlers)
         \<and> mainApiHandler failingCaps ''emit'' [JStr ''hit'', JNum 5] () = (Inr (JObj [(''error'', JStr err)]), r') \<longrightarrow>
         onmessage (mainApiHandler failingCaps) (WApi 77 ''emit'' [JStr ''hit'', JNum 5]) ((), loadedSandbox demoHandlers)
           = (r', (loadedSandbox demoHandlers)\<lparr> posted := posted (loadedSandbox demoHandlers)
                    @ [HApiResponse 77 (JObj [(''error'', JStr err)])] \<rparr>)"
    by (elim conjE)
  from this [rule_format, OF conjI [OF loadedSandbox_eval(1) h]]
  have a: "posted (snd (onmessage (mainApiHandler failingCaps) (WApi 77 ''emit'' [JStr ''hit'', JNum 5])
                ((), loadedSandbox demoHandlers)))
     = [HInit demoHandlers, HRun ''onStart'' None 1, HApiResponse 77 ?obj]"
    by (simp add: loadedSandbox_eval)
  from T have "\<forall>requestId k err. map_of (wpending askingWorker) 77 = Some (requestId, k) \<longrightarrow>
         workerOnmessage demoCompile demoBuiltin 78 (HApiResponse 77 (JObj [(''error'', JStr err)])) askingWorker
           = exec 78 requestId (k (JObj [(''error'', JStr err)]))
               (askingWorker\<lparr> wpending := AList.delete 77 (wpending askingWorker) \<rparr>)"
    by (elim conjE)
  from this [rule_format, OF askingWorker_eval(2), of ?err]
  have X: "workerOnmessage demoCompile demoBuiltin 78 (HApiResponse 77 ?obj) askingWorker
          = exec 78 1 (Return ?obj) (askingWorker\<lparr> wpending := AList.delete 77 (wpending askingWorker) \<rparr>)" .
  have b: "outbox (workerOnmessage demoCompile demoBuiltin 78 (HApiResponse 77 ?obj) askingWorker)
     = [WReady, WApi 77 ''emit'' [JStr ''hit'', JNum 5], WResult 1 ?obj]"
    unfolding X by (simp add: exec_def post_def askingWorker_eval(1))
  have c: "promises (handleMessage (WResult 1 ?obj) (loadedSandbox demoHandlers)) 1
     = Some (Resolved ?obj)"
    by (simp add: handleMessage_def msg_id_def loadedSandbox_eval Let_def settle_def clearTimeout_def)
  from src askingWorker_eval(1) a b c show ?thesis by (intro conjI)
qed

section \<open>Bridge: running a handler that is not there\<close>

lemma buildHandlers_map_of:
  "map_of (buildHandlers compile hs) name
     = map_option (\<lambda>src. case compile src of Inr f \<Rightarrow> f | Inl err \<Rightarrow> (\<lambda>_. Throw err)) (map_of hs name)"
  by (induction compile hs rule: buildHandlers.induct) simp_all

lemma lookupHandler_None:
  "lookupHandler builtin hs name = None \<longleftrightarrow> name \<notin> fst ` set hs \<and> name \<notin> set inheritedFunctions"
proof (cases "map_of hs name")
  case None
  then have "name \<notin> fst ` set hs" by (simp add: map_of_eq_None_iff)
  then show ?thesis unfolding lookupHandler_def None by simp
next
  case (Some f)
  then have "(name, f) \<in> set hs" by (rule map_of_SomeD)
  then have "name \<in> fst ` set hs" by force
  with Some show ?thesis by (simp add: lookupHandler_def)
qed

lemma timerFires_effect:
  assumes "sandbox_inv s" and "r \<in> set (timers s)"
  shows "\<not> worker (timerFires r s)" and "pending (timerFires r s) = []" and "timers (timerFires r s) = []"
    and "promises (timerFires r s) r = Some (Rejected Terminated)"
    and "\<And>i. i \<in> fst ` set (pending s) \<Longrightarrow> promises (timerFires r s) i = Some (Rejected Terminated)"
proof -
  let ?s0 = "s\<lparr> timers := removeAll r (timers s) \<rparr>"
  let ?s' = "timerFires r s"
  have unfold: "?s' = (settle r (Rejected RunTimeout) (terminate ?s0))\<lparr> pending := [] \<rparr>"
    using assms(2) by (rule timerFires_unfold)
  from assms(1) have i0: "sandbox_inv ?s0" by (rule sandbox_inv_untimed)
  show "\<not> worker ?s'" by (simp add: unfold)
  show "pending ?s' = []" by (simp add: unfold)
  show "timers ?s' = []" by (simp add: unfold terminate_timers_inv [OF i0])
  have all: "promises (terminate ?s0) i = Some (Rejected Terminated)" if "i \<in> fst ` set (pending s)" for i
    using inv_key_promise [OF assms(1) that] by (simp add: terminate_promises)
  from inv_timer [OF assms] have rk: "r \<in> fst ` set (pending s)" by force
  show "promises ?s' r = Some (Rejected Terminated)"
    using all [OF rk] by (simp add: unfold)
  show "promises ?s' i = Some (Rejected Terminated)" if "i \<in> fst ` set (pending s)" for i
    using all [OF that] by (auto simp add: unfold)
qed

lemma run_fresh_key:
  assumes "worker s"
  shows "idCounter s \<in> fst ` set (pending (snd (run name args s)))"
  by (simp add: run_ready(4) [OF assms] AList.dom_update)

lemma worker_run_unknown:
  assumes "name \<notin> fst ` set (handlers w)" and "name \<notin> set inheritedFunctions"
  shows "workerOnmessage compile builtin apiId (HRun name args requestId) w = w"
proof -
  from assms have "lookupHandler builtin (handlers w) name = None" by (simp add: lookupHandler_None)
  then show ?thesis by (simp add: workerOnmessage_def)
qed

lemma worker_run_uncompiled:
  assumes "handlers w = buildHandlers compile hs" and "map_of hs name = Some src" and "compile src = Inl err"
  shows "workerOnmessage compile builtin apiId (HRun name args requestId) w = post (WError requestId err) w"
proof -
  from assms have "map_of (handlers w) name = Some (\<lambda>_. Throw err)"
    by (simp add: buildHandlers_map_of)
  then show ?thesis by (simp add: workerOnmessage_def lookupHandler_def exec_def)
qed

lemma loadedWorker_handlers:
  "fst ` set (handlers (loadedWorker demoHandlers)) = {''onStart''}"
  "handlers (loadedWorker brokenHandlers) = buildHandlers demoCompile brokenHandlers"
  "outbox (loadedWorker hs) = [WReady]"
  by (simp_all add: loadedWorker_def workerOnmessage_def newWorker_def post_def demoHandlers_def)

text \<open>
  C10 as stated fails for a handler whose source does not compile: the worker binds the
  name to a function that throws the compile error, so \<open>run\<close> is answered with an \<open>error\<close>
  message at once; the call is rejected with that error, the worker stays, and the
  watchdog is cleared.
\<close>

theorem broken_handler_answers_with_error:
  "map_of brokenHandlers ''onStart'' = Some ''((''
   \<and> demoCompile ''(('' = Inl ''SyntaxError: Unexpected token''
   \<and> outbox (workerOnmessage demoCompile demoBuiltin 77 (HRun ''onStart'' None 1) (loadedWorker brokenHandlers))
       = [WReady, WError 1 ''SyntaxError: Unexpected token'']
   \<and> promises (handleMessage (WError 1 ''SyntaxError: Unexpected token'') (loadedSandbox brokenHandlers)) 1
       = Some (Rejected ''SyntaxError: Unexpected token'')
   \<and> worker (handleMessage (WError 1 ''SyntaxError: Unexpected token'') (loadedSandbox brokenHandlers))
   \<and> timers (handleMessage (WError 1 ''SyntaxError: Unexpected token'') (loadedSandbox brokenHandlers)) = []"
  by (simp add: brokenHandlers_def demoCompile_def loadedWorker_def workerOnmessage_def newWorker_def
      post_def lookupHandler_def exec_def handleMessage_def msg_id_def loadedSandbox_eval Let_def
      settle_def clearTimeout_def)

text \<open>
  C10, as amended. For a name that is neither a key of the loaded handlers nor a
  function that every plain object inherits, the worker ignores the \<open>run\<close> message: it
  posts nothing and stays as it is; the promise of the call is unsettled after \<open>run\<close>,
  and when the watchdog elapses the call is rejected and the bridge is torn down. For a
  name whose source failed to compile the worker answers with an \<open>error\<close> message that
  carries the compile error; on its arrival the call is rejected with that error, the
  worker stays, and the watchdog no longer fires.
\<close>

theorem unloaded_handler_waits_for_watchdog:
  "(sandbox_inv s \<and> worker s \<and> name \<notin> fst ` set (handlers w) \<and> name \<notin> set inheritedFunctions \<longrightarrow>
      fst (run name args s) = RunPromise (idCounter s)
      \<and> posted (snd (run name args s)) = posted s @ [HRun name args (idCounter s)]
      \<and> workerOnmessage compile builtin apiId (HRun name args (idCounter s)) w = w
      \<and> promises (snd (run name args s)) (idCounter s) = None
      \<and> (\<exists>err. promises (timerFires (idCounter s) (snd (run name args s))) (idCounter s) = Some (Rejected err))
      \<and> \<not> worker (timerFires (idCounter s) (snd (run name args s)))
      \<and> pending (timerFires (idCounter s) (snd (run name args s))) = [])
   \<and> (sandbox_inv s \<and> worker s \<and> handlers w = buildHandlers compile hs
        \<and> map_of hs name = Some src \<and> compile src = Inl err \<longrightarrow>
      workerOnmessage compile builtin apiId (HRun name args (idCounter s)) w = post (WError (idCounter s) err) w
      \<and> promises (handleMessage (WError (idCounter s) err) (snd (run name args s))) (idCounter s)
          = Some (Rejected err)
      \<and> worker (handleMessage (WError (idCounter s) err) (snd (run name args s)))
      \<and> timerFires (idCounter s) (handleMessage (WError (idCounter s) err) (snd (run name args s)))
          = handleMessage (WError (idCounter s) err) (snd (run name args s)))"
proof (intro conjI impI; (elim conjE)?)
  let ?r = "idCounter s"
  let ?s1 = "snd (run name args s)"
  {
    assume inv: "sandbox_inv s" and w: "worker s"
    have i1: "sandbox_inv ?s1" using inv by (rule sandbox_inv_run)
    have t: "?r \<in> set (timers ?s1)" by (simp add: run_ready(5) [OF w])
    show "fst (run name args s) = RunPromise ?r" using w by (rule run_ready)
    show "posted ?s1 = posted s @ [HRun name args ?r]" using w by (rule run_ready)
    from inv have "promises s ?r = None" by (simp add: sandbox_inv_def)
    then show "promises ?s1 ?r = None" by (simp add: run_ready(6) [OF w])
    from timerFires_effect(4) [OF i1 t]
    show "\<exists>err. promises (timerFires ?r ?s1) ?r = Some (Rejected err)" by blast
    show "\<not> worker (timerFires ?r ?s1)" using i1 t by (rule timerFires_effect)
    show "pending (timerFires ?r ?s1) = []" using i1 t by (rule timerFires_effect)
  }
  {
    assume "name \<notin> fst ` set (handlers w)" and "name \<notin> set inheritedFunctions"
    then show "workerOnmessage compile builtin apiId (HRun name args ?r) w = w"
      by (rule worker_run_unknown)
  }
  {
    assume "handlers w = buildHandlers compile hs" and "map_of hs name = Some src" and "compile src = Inl err"
    then show "workerOnmessage compile builtin apiId (HRun name args ?r) w = post (WError ?r err) w"
      by (rule worker_run_uncompiled)
  }
  {
    assume inv: "sandbox_inv s" and w: "worker s"
    let ?s2 = "handleMessage (WError ?r err) ?s1"
    have i1: "sandbox_inv ?s1" using inv by (rule sandbox_inv_run)
    have k: "?r \<in> fst ` set (pending ?s1)" using w by (rule run_fresh_key)
    have m: "WError ?r err = response ?r (Rejected err)" by simp
    from inv have n: "promises s ?r = None" by (simp add: sandbox_inv_def)
    have "promises (handleMessage (response ?r (Rejected err)) ?s1) = (promises ?s1)(?r \<mapsto> Rejected err)"
      using i1 k by (rule handleMessage_response)
    then show "promises ?s2 ?r = Some (Rejected err)" by simp
    show "worker ?s2" by (simp add: run_ready(2) [OF w])
    have "timers (handleMessage (response ?r (Rejected err)) ?s1) = removeAll ?r (timers ?s1)"
      using i1 k by (rule handleMessage_response)
    then have "?r \<notin> set (timers ?s2)" by simp
    then show "timerFires ?r ?s2 = ?s2" by (simp add: timerFires_def)
  }
qed

text \<open>
  C10 on the test bridge: \<open>onTick\<close> was never loaded; \<open>onStart\<close> of \<open>brokenHandlers\<close> does
  not compile.
\<close>

theorem unloaded_handler_waits_for_watchdog_witness:
  "sandbox_inv (loadedSandbox demoHandlers) \<and> worker (loadedSandbox demoHandlers)
   \<and> ''onTick'' \<notin> fst ` set (handlers (loadedWorker demoHandlers))
   \<and> ''onTick'' \<notin> set inheritedFunctions
   \<and> fst (run ''onTick'' None (loadedSandbox demoHandlers)) = RunPromise 2
   \<and> workerOnmessage demoCompile demoBuiltin 77 (HRun ''onTick'' None 2) (loadedWorker demoHandlers)
        = loadedWorker demoHandlers
   \<and> promises (snd (run ''onTick'' None (loadedSandbox demoHandlers))) 2 = None
   \<and> (\<exists>err. promises (timerFires 2 (snd (run ''onTick'' None (loadedSandbox demoHandlers)))) 2
               = Some (Rejected err))
   \<and> \<not> worker (timerFires 2 (snd (run ''onTick'' None (loadedSandbox demoHandlers))))
   \<and> sandbox_inv (loadedSandbox brokenHandlers) \<and> worker (loadedSandbox brokenHandlers)
   \<and> workerOnmessage demoCompile demoBuiltin 77 (HRun ''onStart'' None 2) (loadedWorker brokenHandlers)
        = post (WError 2 ''SyntaxError: Unexpected token'') (loadedWorker brokenHandlers)
   \<and> worker (handleMessage (WError 2 ''SyntaxError: Unexpected token'')
                (snd (run ''onStart'' None (loadedSandbox brokenHandlers))))"
proof -
  let ?s = "loadedSandbox demoHandlers" and ?w = "loadedWorker demoHandlers"
  let ?sb = "loadedSandbox brokenHandlers" and ?wb = "loadedWorker brokenHandlers"
  have h1: "sandbox_inv ?s" by (rule loadedSandbox_inv)
  have h2: "worker ?s" by (rule loadedSandbox_eval)
  have h3: "''onTick'' \<notin> fst ` set (handlers ?w)" by (simp add: loadedWorker_handlers)
  have h4: "''onTick'' \<notin> set inheritedFunctions" by (simp add: inheritedFunctions_def)
  have c: "idCounter ?s = 2" by (rule loadedSandbox_eval)
  note T = unloaded_handler_waits_for_watchdog [where s = ?s and name = "''onTick''" and w = ?w
      and args = None and compile = demoCompile and builtin = demoBuiltin and apiId = 77,
      THEN conjunct1, rule_format, OF conjI [OF h1 conjI [OF h2 conjI [OF h3 h4]]], unfolded c]
  have g1: "sandbox_inv ?sb" by (rule loadedSandbox_inv)
  have g2: "worker ?sb" by (rule loadedSandbox_eval)
  have g3: "handlers ?wb = buildHandlers demoCompile brokenHandlers" by (rule loadedWorker_handlers)
  have g4: "map_of brokenHandlers ''onStart'' = Some ''((''" by (simp add: brokenHandlers_def)
  have g5: "demoCompile ''(('' = Inl ''SyntaxError: Unexpected token''" by (simp add: demoCompile_def)
  have cb: "idCounter ?sb = 2" by (rule loadedSandbox_eval)
  note U = unloaded_handler_waits_for_watchdog [where s = ?sb and name = "''onStart''" and w = ?wb
      and args = None and compile = demoCompile and builtin = demoBuiltin and apiId = 77
      and hs = brokenHandlers and src = "''((''" and err = "''SyntaxError: Unexpected token''",
      THEN conjunct2, rule_format, OF conjI [OF g1 conjI [OF g2 conjI [OF g3 conjI [OF g4 g5]]]], unfolded cb]
  from T have t1: "fst (run ''onTick'' None ?s) = RunPromise 2" by (elim conjE)
  from T have t2: "workerOnmessage demoCompile demoBuiltin 77 (HRun ''onTick'' None 2) ?w = ?w"
    by (elim conjE)
  from T have t3: "promises (snd (run ''onTick'' None ?s)) 2 = None" by (elim conjE)
  from T have t4: "\<exists>err. promises (timerFires 2 (snd (run ''onTick'' None ?s))) 2 = Some (Rejected err)"
    by (elim conjE)
  from T have t5: "\<not> worker (timerFires 2 (snd (run ''onTick'' None ?s)))" by (elim conjE)
  from U have u1: "workerOnmessage demoCompile demoBuiltin 77 (HRun ''onStart'' None 2) ?wb
        = post (WError 2 ''SyntaxError: Unexpected token'') ?wb"
    by (elim conjE)
  from U have u2: "worker (handleMessage (WError 2 ''SyntaxError: Unexpected token'')
                (snd (run ''onStart'' None ?sb)))"
    by (elim conjE)
  from h1 h2 h3 h4 t1 t2 t3 t4 t5 g1 g2 u1 u2 show ?thesis by (intro conjI)
qed

end
